theory Spec2Isabelle
  imports Complex_Main "HOL-Library.Sublist" "HOL-Library.AList"
begin

unbundle bit_operations_syntax

section \<open>Values of the host language\<close>

text \<open>
  The library is TypeScript; the functions below run on JavaScript values. A call either
  returns a value or throws. A third outcome, \<open>Unmodelled\<close>, marks the inputs on which the
  host language does something this theory does not describe (number formatting of a
  non-integer, a regular expression outside the fragment of section "Regular expressions");
  nothing is claimed about the code there.
\<close>

datatype js_error = SyntaxError | TypeError | IOError

datatype 'a outcome = Returns 'a | Throws js_error | Unmodelled

fun bind_outcome :: "'a outcome \<Rightarrow> ('a \<Rightarrow> 'b outcome) \<Rightarrow> 'b outcome" where
  "bind_outcome (Returns x) f = f x"
| "bind_outcome (Throws e) f = Throws e"
| "bind_outcome Unmodelled f = Unmodelled"

text \<open>
  Numbers: every finite double is a rational, and ordering and equality of finite doubles
  are those of the rationals they denote (\<open>+0\<close> and \<open>-0\<close> are both \<open>0\<close>).
\<close>

datatype jsnum = NaN | NegInfinity | Finite rat | PosInfinity

text \<open>
  Arrays and objects have an identity (an address): \<open>===\<close> compares two of them by
  address, never by content.
\<close>

type_synonym addr = nat

datatype jsval =
    Undefined
  | Null
  | Bool bool
  | Num jsnum
  | Str string
  | Arr addr "jsval list"
  | Obj addr

text \<open>\<open>a < b\<close> and \<open>a <= b\<close> on numbers: false as soon as one side is \<open>NaN\<close>.\<close>

fun num_lt :: "jsnum \<Rightarrow> jsnum \<Rightarrow> bool" where
  "num_lt NaN _ = False"
| "num_lt _ NaN = False"
| "num_lt NegInfinity NegInfinity = False"
| "num_lt NegInfinity _ = True"
| "num_lt _ NegInfinity = False"
| "num_lt PosInfinity _ = False"
| "num_lt (Finite a) PosInfinity = True"
| "num_lt (Finite a) (Finite b) = (a < b)"

fun num_eq :: "jsnum \<Rightarrow> jsnum \<Rightarrow> bool" where
  "num_eq NaN _ = False"
| "num_eq _ NaN = False"
| "num_eq a b = (a = b)"

definition num_le :: "jsnum \<Rightarrow> jsnum \<Rightarrow> bool" where
  "num_le a b = (num_lt a b \<or> num_eq a b)"

text \<open>Strict equality \<open>a === b\<close>.\<close>

fun strict_eq :: "jsval \<Rightarrow> jsval \<Rightarrow> bool" where
  "strict_eq Undefined Undefined = True"
| "strict_eq Null Null = True"
| "strict_eq (Bool a) (Bool b) = (a = b)"
| "strict_eq (Num a) (Num b) = num_eq a b"
| "strict_eq (Str a) (Str b) = (a = b)"
| "strict_eq (Arr a _) (Arr b _) = (a = b)"
| "strict_eq (Obj a) (Obj b) = (a = b)"
| "strict_eq _ _ = False"

text \<open>
  \<open>Array.prototype.includes\<close> compares with SameValueZero: strict equality, except that
  \<open>NaN\<close> is found in an array that holds \<open>NaN\<close>.
\<close>

fun same_value_zero :: "jsval \<Rightarrow> jsval \<Rightarrow> bool" where
  "same_value_zero (Num NaN) (Num NaN) = True"
| "same_value_zero a b = strict_eq a b"

definition array_includes :: "jsval list \<Rightarrow> jsval \<Rightarrow> bool" where
  "array_includes xs v = list_ex (\<lambda>x. same_value_zero x v) xs"

text \<open>Decimal digits of a natural number, as \<open>String(n)\<close> prints an integer.\<close>

fun digit_char :: "nat \<Rightarrow> char" where
  "digit_char n = char_of (48 + n mod 10)"

function digits :: "nat \<Rightarrow> string" where
  "digits n = (if n < 10 then [digit_char n] else digits (n div 10) @ [digit_char n])"
  by pat_completeness auto
termination
  by (relation "measure id") auto

text \<open>
  \<open>String(v)\<close>. An integer of magnitude below \<open>10^21\<close> prints in plain decimal; how the host
  prints other finite numbers (shortest round-trip digits, exponents) is not modelled, nor
  is the \<open>toString\<close> of an object. An array prints its elements joined by commas, \<open>null\<close>
  and \<open>undefined\<close> elements as the empty string.
\<close>

fun join_comma :: "string list \<Rightarrow> string" where
  "join_comma [] = []"
| "join_comma [s] = s"
| "join_comma (s # t # ss) = s @ '','' @ join_comma (t # ss)"

fun sequence_outcome :: "'a outcome list \<Rightarrow> 'a list outcome" where
  "sequence_outcome [] = Returns []"
| "sequence_outcome (x # xs) =
     bind_outcome x (\<lambda>y. bind_outcome (sequence_outcome xs) (\<lambda>ys. Returns (y # ys)))"

fun js_String :: "jsval \<Rightarrow> string outcome" where
  "js_String Undefined = Returns ''undefined''"
| "js_String Null = Returns ''null''"
| "js_String (Bool b) = Returns (if b then ''true'' else ''false'')"
| "js_String (Num NaN) = Returns ''NaN''"
| "js_String (Num PosInfinity) = Returns ''Infinity''"
| "js_String (Num NegInfinity) = Returns ''-Infinity''"
| "js_String (Num (Finite q)) =
     (let (n, d) = quotient_of q in
      if d = 1 \<and> \<bar>n\<bar> < 10 ^ 21
      then Returns ((if n < 0 then ''-'' else '''') @ digits (nat \<bar>n\<bar>))
      else Unmodelled)"
| "js_String (Str s) = Returns s"
| "js_String (Arr a xs) =
     bind_outcome
       (sequence_outcome
          (map (\<lambda>x. if x = Undefined \<or> x = Null then Returns '''' else js_String x) xs))
       (\<lambda>ss. Returns (join_comma ss))"
| "js_String (Obj a) = Unmodelled"

text \<open>
  \<open>ToNumber(v)\<close>, the coercion the relational operators apply to a non-number operand.
  Parsing a string as a number (and an array or object, which goes through its string) is
  not modelled.
\<close>

fun js_ToNumber :: "jsval \<Rightarrow> jsnum outcome" where
  "js_ToNumber Undefined = Returns NaN"
| "js_ToNumber Null = Returns (Finite 0)"
| "js_ToNumber (Bool b) = Returns (Finite (if b then 1 else 0))"
| "js_ToNumber (Num n) = Returns n"
| "js_ToNumber _ = Unmodelled"

section \<open>Regular expressions\<close>

text \<open>
  \<open>new RegExp(pattern, flags)\<close> and \<open>regex.test(s)\<close>, for the fragment of patterns made of
  literal characters, \<open>.\<close>, \<open>^\<close>, \<open>$\<close> and capturing groups \<open>( )\<close>, and for the flags \<open>''''\<close>
  and \<open>''i''\<close>. A pattern that uses any of \<open>\ [ ] { } * + ? |\<close> is outside the fragment.
  Strings are sequences of code units below 256.

  Within the fragment a group only brackets a part of the sequence, so a pattern compiles
  to the list of its atoms; an unterminated \<open>(\<close> or an unmatched \<open>)\<close> is a SyntaxError.
\<close>

datatype atom = Bol | Eol | AnyChar | Lit char

definition beyond_fragment :: "char \<Rightarrow> bool" where
  "beyond_fragment c = (c \<in> set [CHR 0x5C, CHR ''['', CHR '']'', CHR ''{'', CHR ''}'',
                                CHR ''*'', CHR ''+'', CHR ''?'', CHR ''|''])"

definition atom_of :: "char \<Rightarrow> atom" where
  "atom_of c = (if c = CHR ''^'' then Bol else if c = CHR ''$'' then Eol
                else if c = CHR ''.'' then AnyChar else Lit c)"

fun parse_pattern :: "nat \<Rightarrow> string \<Rightarrow> atom list option" where
  "parse_pattern depth [] = (if depth = 0 then Some [] else None)"
| "parse_pattern depth (c # cs) =
     (if c = CHR ''('' then parse_pattern (Suc depth) cs
      else if c = CHR '')'' then (case depth of 0 \<Rightarrow> None | Suc d \<Rightarrow> parse_pattern d cs)
      else map_option ((#) (atom_of c)) (parse_pattern depth cs))"

text \<open>
  \<open>regex.source\<close> is the pattern with \<open>/\<close> and line terminators escaped; the empty
  pattern has the source \<open>(?:)\<close>.
\<close>

definition escape_source_char :: "char \<Rightarrow> string" where
  "escape_source_char c =
     (if c = CHR ''/'' then [CHR 0x5C, CHR ''/'']
      else if c = CHR 0x0A then [CHR 0x5C, CHR ''n'']
      else if c = CHR 0x0D then [CHR 0x5C, CHR ''r'']
      else [c])"

definition pattern_source :: "string \<Rightarrow> string" where
  "pattern_source pattern =
     (if pattern = [] then ''(?:)'' else concat (map escape_source_char pattern))"

record RegExp =
  source :: string
  ignoreCase :: bool
  atoms :: "atom list"

definition RegExp_new :: "string \<Rightarrow> string \<Rightarrow> RegExp outcome" where
  "RegExp_new pattern flags =
     (if list_ex beyond_fragment pattern \<or> (flags \<noteq> '''' \<and> flags \<noteq> ''i'') then Unmodelled
      else case parse_pattern 0 pattern of
             None \<Rightarrow> Throws SyntaxError
           | Some as \<Rightarrow>
               Returns \<lparr>source = pattern_source pattern, ignoreCase = (flags = ''i''),
                        atoms = as\<rparr>)"

text \<open>
  Case-insensitive comparison goes through \<open>Canonicalize\<close>, the upper-case form of a
  character: \<open>a..z\<close> and the Latin-1 letters \<open>0xE0..0xFE\<close> (without \<open>0xF7\<close>) move down by 32.
\<close>

definition Canonicalize :: "bool \<Rightarrow> char \<Rightarrow> char" where
  "Canonicalize ic c =
     (let n = (of_char c :: nat) in
      if ic \<and> ((97 \<le> n \<and> n \<le> 122) \<or> (224 \<le> n \<and> n \<le> 254 \<and> n \<noteq> 247))
      then char_of (n - 32) else c)"

definition line_terminator :: "char \<Rightarrow> bool" where
  "line_terminator c = (c = CHR 0x0A \<or> c = CHR 0x0D)"

text \<open>
  \<open>match_here ic as s at_start\<close>: the atoms match a prefix of \<open>s\<close>; \<open>at_start\<close> says that
  \<open>s\<close> is the whole input. \<open>regex_test\<close> tries every start position, from the left.
\<close>

fun match_here :: "bool \<Rightarrow> atom list \<Rightarrow> string \<Rightarrow> bool \<Rightarrow> bool" where
  "match_here ic [] s at_start = True"
| "match_here ic (Bol # as) s at_start = (at_start \<and> match_here ic as s at_start)"
| "match_here ic (Eol # as) s at_start = (s = [] \<and> match_here ic as s at_start)"
| "match_here ic (AnyChar # as) [] at_start = False"
| "match_here ic (AnyChar # as) (x # xs) at_start =
     (\<not> line_terminator x \<and> match_here ic as xs False)"
| "match_here ic (Lit c # as) [] at_start = False"
| "match_here ic (Lit c # as) (x # xs) at_start =
     (Canonicalize ic x = Canonicalize ic c \<and> match_here ic as xs False)"

fun search_from :: "bool \<Rightarrow> atom list \<Rightarrow> string \<Rightarrow> bool \<Rightarrow> bool" where
  "search_from ic as [] at_start = match_here ic as [] at_start"
| "search_from ic as (x # xs) at_start =
     (match_here ic as (x # xs) at_start \<or> search_from ic as xs False)"

definition regex_test :: "RegExp \<Rightarrow> string \<Rightarrow> bool" where
  "regex_test r s = search_from (ignoreCase r) (atoms r) s True"

section \<open>Filter engine (universal/filter.ts)\<close>

datatype MatchMode = MatchAND | MatchOR

record FilterRule =
  rule_property :: string
  rule_method :: string
  rule_value :: jsval

record FilterCondition =
  cond_rules :: "FilterRule list"
  cond_match :: MatchMode

record ItemFilter =
  filter_conditions :: "FilterCondition list"
  filter_match :: MatchMode

text \<open>An item is read by property name; a property it does not have reads \<open>undefined\<close>.\<close>

type_synonym FilterableItem = "string \<Rightarrow> jsval"

definition isEmptyValue :: "jsval \<Rightarrow> bool" where
  "isEmptyValue v =
     (case v of
        Undefined \<Rightarrow> True
      | Null \<Rightarrow> True
      | Str s \<Rightarrow> length s = 0
      | Arr a xs \<Rightarrow> length xs = 0
      | _ \<Rightarrow> False)"

text \<open>\<open>itemValue > (ruleValue as number)\<close> and its three siblings; the left side is a number.\<close>

definition compare_with :: "(jsnum \<Rightarrow> jsnum \<Rightarrow> bool) \<Rightarrow> jsnum \<Rightarrow> jsval \<Rightarrow> bool outcome" where
  "compare_with op n ruleValue = bind_outcome (js_ToNumber ruleValue) (\<lambda>r. Returns (op n r))"

text \<open>\<open>ruleValue[i]\<close> of the destructuring \<open>const [min, max] = ruleValue\<close>.\<close>

definition element_at :: "jsval list \<Rightarrow> nat \<Rightarrow> jsval" where
  "element_at xs i = (if i < length xs then xs ! i else Undefined)"

definition matchesRule :: "FilterableItem \<Rightarrow> FilterRule \<Rightarrow> bool outcome" where
  "matchesRule item rule =
     (let itemValue = item (rule_property rule);
          ruleValue = rule_value rule;
          m = rule_method rule
      in
      if m = ''is'' then Returns (strict_eq itemValue ruleValue)
      else if m = ''isNot'' then Returns (\<not> strict_eq itemValue ruleValue)
      else if m = ''contains'' then
        (case itemValue of
           Str s \<Rightarrow> bind_outcome (js_String ruleValue) (\<lambda>r. Returns (sublist r s))
         | _ \<Rightarrow> Returns False)
      else if m = ''notContains'' then
        (case itemValue of
           Str s \<Rightarrow> bind_outcome (js_String ruleValue) (\<lambda>r. Returns (\<not> sublist r s))
         | _ \<Rightarrow> Returns False)
      else if m = ''startsWith'' then
        (case itemValue of
           Str s \<Rightarrow> bind_outcome (js_String ruleValue) (\<lambda>r. Returns (prefix r s))
         | _ \<Rightarrow> Returns False)
      else if m = ''endsWith'' then
        (case itemValue of
           Str s \<Rightarrow> bind_outcome (js_String ruleValue) (\<lambda>r. Returns (suffix r s))
         | _ \<Rightarrow> Returns False)
      else if m = ''matches'' then
        (case itemValue of
           Str s \<Rightarrow>
             bind_outcome (js_String ruleValue) (\<lambda>p.
             bind_outcome (RegExp_new p ''i'') (\<lambda>regex.
             Returns (regex_test regex s)))
         | _ \<Rightarrow> Returns False)
      else if m = ''gt'' then
        (case itemValue of Num n \<Rightarrow> compare_with (\<lambda>a b. num_lt b a) n ruleValue
                         | _ \<Rightarrow> Returns False)
      else if m = ''gte'' then
        (case itemValue of Num n \<Rightarrow> compare_with (\<lambda>a b. num_le b a) n ruleValue
                         | _ \<Rightarrow> Returns False)
      else if m = ''lt'' then
        (case itemValue of Num n \<Rightarrow> compare_with num_lt n ruleValue
                         | _ \<Rightarrow> Returns False)
      else if m = ''lte'' then
        (case itemValue of Num n \<Rightarrow> compare_with num_le n ruleValue
                         | _ \<Rightarrow> Returns False)
      else if m = ''between'' then
        (case (itemValue, ruleValue) of
           (Num n, Arr a rs) \<Rightarrow>
             bind_outcome (compare_with (\<lambda>a b. num_le b a) n (element_at rs 0)) (\<lambda>ge_min.
             if ge_min then compare_with num_le n (element_at rs 1) else Returns False)
         | _ \<Rightarrow> Returns False)
      else if m = ''isEmpty'' then Returns (isEmptyValue itemValue)
      else if m = ''isNotEmpty'' then Returns (\<not> isEmptyValue itemValue)
      else if m = ''includesAny'' then
        (case (itemValue, ruleValue) of
           (Arr a vs, Arr b rs) \<Rightarrow> Returns (list_ex (\<lambda>v. array_includes vs v) rs)
         | _ \<Rightarrow> Returns False)
      else if m = ''includesAll'' then
        (case (itemValue, ruleValue) of
           (Arr a vs, Arr b rs) \<Rightarrow> Returns (list_all (\<lambda>v. array_includes vs v) rs)
         | _ \<Rightarrow> Returns False)
      else if m = ''excludesAny'' then
        (case (itemValue, ruleValue) of
           (Arr a vs, Arr b rs) \<Rightarrow> Returns (list_ex (\<lambda>v. \<not> array_includes vs v) rs)
         | _ \<Rightarrow> Returns False)
      else if m = ''excludesAll'' then
        (case (itemValue, ruleValue) of
           (Arr a vs, Arr b rs) \<Rightarrow> Returns (list_all (\<lambda>v. \<not> array_includes vs v) rs)
         | _ \<Rightarrow> Returns False)
      else Returns False)"

text \<open>
  \<open>results.every(Boolean)\<close> or \<open>results.some(Boolean)\<close>: any match mode other than \<open>AND\<close>
  takes the second branch.
\<close>

definition combine_results :: "MatchMode \<Rightarrow> bool list \<Rightarrow> bool" where
  "combine_results mode results =
     (if mode = MatchAND then list_all (\<lambda>b. b) results else list_ex (\<lambda>b. b) results)"

text \<open>
  \<open>rules.map(...)\<close> evaluates every rule, in order, before the results are combined, so a
  rule that throws makes the whole evaluation throw.
\<close>

definition matchesCondition :: "FilterableItem \<Rightarrow> FilterCondition \<Rightarrow> bool outcome" where
  "matchesCondition item condition =
     (if length (cond_rules condition) = 0 then Returns True
      else bind_outcome (sequence_outcome (map (matchesRule item) (cond_rules condition)))
             (\<lambda>results. Returns (combine_results (cond_match condition) results)))"

definition matchesFilter :: "FilterableItem \<Rightarrow> ItemFilter \<Rightarrow> bool outcome" where
  "matchesFilter item flt =
     (if length (filter_conditions flt) = 0 then Returns True
      else bind_outcome
             (sequence_outcome (map (matchesCondition item) (filter_conditions flt)))
             (\<lambda>results. Returns (combine_results (filter_match flt) results)))"


subsection \<open>The fluent builder\<close>

text \<open>
  \<open>currentCondition\<close> is the same object as one element of \<open>conditions\<close>: a rule pushed
  through it shows in the built filter. The model keeps the element's index.
\<close>

record ItemFilterBuilder =
  conditions :: "FilterCondition list"
  currentCondition :: "nat option"
  conditionMatch :: MatchMode

definition new_ItemFilterBuilder :: ItemFilterBuilder where
  "new_ItemFilterBuilder = \<lparr>conditions = [], currentCondition = None, conditionMatch = MatchAND\<rparr>"

record RuleBuilder =
  rb_builder :: ItemFilterBuilder
  rb_condition :: nat
  rb_property :: string

definition builder_where :: "ItemFilterBuilder \<Rightarrow> string \<Rightarrow> RuleBuilder" where
  "builder_where b property =
     \<lparr>rb_builder = b\<lparr>conditions := conditions b @ [\<lparr>cond_rules = [], cond_match = MatchAND\<rparr>],
                       currentCondition := Some (length (conditions b))\<rparr>,
      rb_condition = length (conditions b),
      rb_property = property\<rparr>"

definition addRule :: "RuleBuilder \<Rightarrow> string \<Rightarrow> jsval \<Rightarrow> ItemFilterBuilder" where
  "addRule rb method v =
     (let b = rb_builder rb; i = rb_condition rb; c = conditions b ! i
      in b\<lparr>conditions :=
             (conditions b)[i := c\<lparr>cond_rules := cond_rules c @
                [\<lparr>rule_property = rb_property rb, rule_method = method, rule_value = v\<rparr>]\<rparr>]\<rparr>)"

text \<open>The argument of \<open>matches\<close>: a compiled regular expression or a pattern string.\<close>

datatype RegExp_or_string = IsRegExp RegExp | IsString string

definition builder_matches :: "RuleBuilder \<Rightarrow> RegExp_or_string \<Rightarrow> ItemFilterBuilder" where
  "builder_matches rb regex =
     addRule rb ''matches'' (case regex of IsRegExp r \<Rightarrow> Str (source r) | IsString s \<Rightarrow> Str s)"

definition build :: "ItemFilterBuilder \<Rightarrow> ItemFilter" where
  "build b = \<lparr>filter_conditions = conditions b, filter_match = conditionMatch b\<rparr>"

subsection \<open>Vocabulary of the evaluator's contract\<close>

text \<open>\<open>typeof v === 'string'\<close>, \<open>typeof v === 'number'\<close>, \<open>Array.isArray(v)\<close>.\<close>

definition is_string :: "jsval \<Rightarrow> bool" where
  "is_string v = (case v of Str s \<Rightarrow> True | _ \<Rightarrow> False)"

definition is_number :: "jsval \<Rightarrow> bool" where
  "is_number v = (case v of Num n \<Rightarrow> True | _ \<Rightarrow> False)"

definition is_array :: "jsval \<Rightarrow> bool" where
  "is_array v = (case v of Arr a xs \<Rightarrow> True | _ \<Rightarrow> False)"

definition string_methods :: "string list" where
  "string_methods = [''contains'', ''notContains'', ''startsWith'', ''endsWith'', ''matches'']"

definition numeric_methods :: "string list" where
  "numeric_methods = [''gt'', ''gte'', ''lt'', ''lte'', ''between'']"

definition set_methods :: "string list" where
  "set_methods = [''includesAny'', ''includesAll'', ''excludesAny'', ''excludesAll'']"

definition known_methods :: "string list" where
  "known_methods = [''is'', ''isNot'', ''isEmpty'', ''isNotEmpty'']
                   @ string_methods @ numeric_methods @ set_methods"

text \<open>
  When a rule's method cannot apply to what it is given: a string method on a property
  that is not a string, a numeric method on one that is not a number, a set method when
  the property or the rule's value is not an array, or a method the evaluator does not know.
\<close>

definition precondition_fails :: "string \<Rightarrow> jsval \<Rightarrow> jsval \<Rightarrow> bool" where
  "precondition_fails m v r =
     ((m \<in> set string_methods \<and> \<not> is_string v)
      \<or> (m \<in> set numeric_methods \<and> \<not> is_number v)
      \<or> (m \<in> set set_methods \<and> (\<not> is_array v \<or> \<not> is_array r))
      \<or> m \<notin> set known_methods)"

text \<open>The methods that have a dual.\<close>

definition dual_method :: "string \<Rightarrow> string option" where
  "dual_method m =
     map_of [(''is'', ''isNot''), (''isNot'', ''is''),
             (''contains'', ''notContains''), (''notContains'', ''contains''),
             (''isEmpty'', ''isNotEmpty''), (''isNotEmpty'', ''isEmpty'')] m"

definition wallpaper_item :: FilterableItem where
  "wallpaper_item = (\<lambda>_. Undefined)(''name'' := Str ''Wallpaper_01.png'')"

definition tagged_item :: FilterableItem where
  "tagged_item = (\<lambda>_. Undefined)(''name'' := Str ''a.png'',
                                   ''tags'' := Arr 1 [Str ''photo''],
                                   ''star'' := Num (Finite 3))"

section \<open>Change subscription manager (universal/subscribe.ts, universal/models.ts)\<close>

subsection \<open>Snapshots\<close>

text \<open>
  A host item is read through its getters; \<open>extractItem\<close> names every field it copies.
  The host's \<open>Item\<close> is modelled by the record of what its getters return.
\<close>

record PlainItem =
  item_id :: string
  item_name :: string
  item_ext :: string
  item_width :: int
  item_height :: int
  item_url :: string
  item_isDeleted :: bool
  item_annotation :: string
  item_tags :: "string list"
  item_folders :: "string list"
  item_palettes :: "jsval list"
  item_size :: int
  item_star :: "int option"
  item_importedAt :: int
  item_modifiedAt :: int
  item_noThumbnail :: bool
  item_noPreview :: bool
  item_filePath :: string
  item_fileURL :: string
  item_thumbnailPath :: string
  item_thumbnailURL :: string
  item_metadataFilePath :: string

type_synonym Item = PlainItem

definition extractItem :: "Item \<Rightarrow> PlainItem" where
  "extractItem item =
     \<lparr>item_id = item_id item,
      item_name = item_name item,
      item_ext = item_ext item,
      item_width = item_width item,
      item_height = item_height item,
      item_url = item_url item,
      item_isDeleted = item_isDeleted item,
      item_annotation = item_annotation item,
      item_tags = item_tags item,
      item_folders = item_folders item,
      item_palettes = item_palettes item,
      item_size = item_size item,
      item_star = item_star item,
      item_importedAt = item_importedAt item,
      item_modifiedAt = item_modifiedAt item,
      item_noThumbnail = item_noThumbnail item,
      item_noPreview = item_noPreview item,
      item_filePath = item_filePath item,
      item_fileURL = item_fileURL item,
      item_thumbnailPath = item_thumbnailPath item,
      item_thumbnailURL = item_thumbnailURL item,
      item_metadataFilePath = item_metadataFilePath item\<rparr>"

datatype Folder =
  Folder (f_id: string) (f_name: string) (f_description: string) (f_icon: string)
         (f_iconColor: string) (f_createdAt: int) (f_parent: "string option")
         (f_children: "Folder list")

record PlainFolder =
  folder_id :: string
  folder_name :: string
  folder_description :: string
  folder_icon :: string
  folder_iconColor :: string
  folder_createdAt :: int
  folder_parent :: "string option"
  folder_children :: "Folder list"

definition extractFolder :: "Folder \<Rightarrow> PlainFolder" where
  "extractFolder folder =
     \<lparr>folder_id = f_id folder,
      folder_name = f_name folder,
      folder_description = f_description folder,
      folder_icon = f_icon folder,
      folder_iconColor = f_iconColor folder,
      folder_createdAt = f_createdAt folder,
      folder_parent = f_parent folder,
      folder_children = f_children folder\<rparr>"

record LibraryState =
  ls_path :: string
  ls_name :: string

record ConfigState =
  config_mtime :: rat

record LibraryFolderState =
  folder_mtime :: rat

subsection \<open>The host, as one tick observes it\<close>

text \<open>
  Every poll reads the host. \<open>None\<close> stands for a read that throws: no library open, a
  selection query that rejects, a \<open>stat\<close> on a missing file.
\<close>

record host =
  eagle_library :: "LibraryState option"
  eagle_item_getSelected :: "Item list option"
  eagle_folder_getSelected :: "Folder list option"
  stat_metadata_json :: "rat option"
  stat_library_root :: "rat option"
  Date_now :: int

definition getLibraryState :: "host \<Rightarrow> LibraryState" where
  "getLibraryState h =
     (case eagle_library h of
        Some l \<Rightarrow> \<lparr>ls_path = ls_path l, ls_name = ls_name l\<rparr>
      | None \<Rightarrow> \<lparr>ls_path = [], ls_name = []\<rparr>)"

subsection \<open>State of the manager\<close>

record SubscribeOptions =
  opt_interval :: "int option"
  opt_maxEqualLookups :: "int option"

text \<open>A callback is known by a number; what it does when called is outside the manager.\<close>

type_synonym callback = nat

record WatcherEntry =
  entry_callback :: callback
  entry_interval :: int
  entry_maxEqualLookups :: int

text \<open>\<open>timerId\<close>: \<open>None\<close> when no timer runs, else the period the timer was started with.\<close>

record 'a WatcherState =
  entries :: "WatcherEntry list"
  timerId :: "int option"
  previous :: "'a list option"

record SubscriptionManager =
  libraryState :: "LibraryState option"
  libraryTimerId :: "int option"
  libraryCallbacks :: "callback list"
  itemWatchers :: "PlainItem WatcherState"
  folderWatchers :: "PlainFolder WatcherState"
  configPrevious :: "ConfigState option"
  configEntries :: "WatcherEntry list"
  configTimerId :: "int option"
  libraryFolderPrevious :: "LibraryFolderState option"
  libraryFolderEntries :: "WatcherEntry list"
  libraryFolderTimerId :: "int option"

definition new_SubscriptionManager :: SubscriptionManager where
  "new_SubscriptionManager =
     \<lparr>libraryState = None, libraryTimerId = None, libraryCallbacks = [],
      itemWatchers = \<lparr>entries = [], timerId = None, previous = None\<rparr>,
      folderWatchers = \<lparr>entries = [], timerId = None, previous = None\<rparr>,
      configPrevious = None, configEntries = [], configTimerId = None,
      libraryFolderPrevious = None, libraryFolderEntries = [], libraryFolderTimerId = None\<rparr>"

record 'a ChangeEvent =
  ev_previous :: 'a
  ev_current :: 'a
  ev_timestamp :: int

text \<open>A call of a subscriber's callback. A callback that throws is caught and logged.\<close>

datatype notification =
    LibraryCallback callback "LibraryState ChangeEvent"
  | ItemCallback callback "PlainItem list ChangeEvent"
  | FolderCallback callback "PlainFolder list ChangeEvent"
  | ConfigCallback callback "ConfigState ChangeEvent"
  | LibraryFolderCallback callback "LibraryFolderState ChangeEvent"

subsection \<open>Utilities\<close>

definition getMinInterval :: "WatcherEntry list \<Rightarrow> int" where
  "getMinInterval es =
     foldl (\<lambda>min e. if entry_interval e < min then entry_interval e else min) 500 es"

definition hasSelectionChanged :: "string list \<Rightarrow> string list \<Rightarrow> int \<Rightarrow> bool" where
  "hasSelectionChanged prev cur maxLookups =
     (if length prev \<noteq> length cur then True
      else let limit = (if maxLookups = -1 then int (length prev)
                        else min maxLookups (int (length prev)))
           in list_ex (\<lambda>i. prev ! i \<noteq> cur ! i) [0..<nat limit])"

subsection \<open>Library change (parent watcher)\<close>

definition resetChildWatchers :: "SubscriptionManager \<Rightarrow> SubscriptionManager" where
  "resetChildWatchers m =
     m\<lparr>itemWatchers := (itemWatchers m)\<lparr>previous := None\<rparr>,
       folderWatchers := (folderWatchers m)\<lparr>previous := None\<rparr>,
       configPrevious := None,
       libraryFolderPrevious := None\<rparr>"

definition checkLibraryChange ::
  "host \<Rightarrow> SubscriptionManager \<Rightarrow> notification list \<times> SubscriptionManager" where
  "checkLibraryChange h m =
     (let current = getLibraryState h in
      case libraryState m of
        Some prev \<Rightarrow>
          if ls_path current \<noteq> ls_path prev
          then (map (\<lambda>cb. LibraryCallback cb
                       \<lparr>ev_previous = prev, ev_current = current,
                        ev_timestamp = Date_now h\<rparr>)
                  (libraryCallbacks m),
                (resetChildWatchers m)\<lparr>libraryState := Some current\<rparr>)
          else ([], m\<lparr>libraryState := Some current\<rparr>)
      | None \<Rightarrow> ([], m\<lparr>libraryState := Some current\<rparr>))"

definition ensureLibraryWatcher :: "host \<Rightarrow> SubscriptionManager \<Rightarrow> SubscriptionManager" where
  "ensureLibraryWatcher h m =
     (if libraryTimerId m \<noteq> None then m
      else m\<lparr>libraryState := Some (getLibraryState h), libraryTimerId := Some 1000\<rparr>)"

definition subscribeLibrary ::
  "host \<Rightarrow> callback \<Rightarrow> SubscriptionManager \<Rightarrow> SubscriptionManager" where
  "subscribeLibrary h cb m =
     ensureLibraryWatcher h
       (m\<lparr>libraryCallbacks :=
            (if cb \<in> set (libraryCallbacks m) then libraryCallbacks m
             else libraryCallbacks m @ [cb])\<rparr>)"

subsection \<open>The four child pollers\<close>

text \<open>
  A tick reads the host, then compares with \<open>previous\<close>, calls the subscribers and stores
  the new \<open>previous\<close> without giving up control; the model takes the part after the read
  as one step. A read that throws is logged and leaves the state as it is.
\<close>

definition checkItemChange ::
  "host \<Rightarrow> SubscriptionManager \<Rightarrow> notification list \<times> SubscriptionManager" where
  "checkItemChange h m =
     (case eagle_item_getSelected h of
        None \<Rightarrow> ([], m)
      | Some selected \<Rightarrow>
          let current = map extractItem selected;
              fired =
                (case previous (itemWatchers m) of
                   None \<Rightarrow> []
                 | Some prev \<Rightarrow>
                     concat (map (\<lambda>entry.
                       if hasSelectionChanged (map item_id prev) (map item_id current)
                            (entry_maxEqualLookups entry)
                       then [ItemCallback (entry_callback entry)
                               \<lparr>ev_previous = prev, ev_current = current,
                                ev_timestamp = Date_now h\<rparr>]
                       else []) (entries (itemWatchers m))))
          in (fired, m\<lparr>itemWatchers := (itemWatchers m)\<lparr>previous := Some current\<rparr>\<rparr>))"

definition checkFolderChange ::
  "host \<Rightarrow> SubscriptionManager \<Rightarrow> notification list \<times> SubscriptionManager" where
  "checkFolderChange h m =
     (case eagle_folder_getSelected h of
        None \<Rightarrow> ([], m)
      | Some selected \<Rightarrow>
          let current = map extractFolder selected;
              fired =
                (case previous (folderWatchers m) of
                   None \<Rightarrow> []
                 | Some prev \<Rightarrow>
                     concat (map (\<lambda>entry.
                       if hasSelectionChanged (map folder_id prev) (map folder_id current)
                            (entry_maxEqualLookups entry)
                       then [FolderCallback (entry_callback entry)
                               \<lparr>ev_previous = prev, ev_current = current,
                                ev_timestamp = Date_now h\<rparr>]
                       else []) (entries (folderWatchers m))))
          in (fired, m\<lparr>folderWatchers := (folderWatchers m)\<lparr>previous := Some current\<rparr>\<rparr>))"

definition checkConfigChange ::
  "host \<Rightarrow> SubscriptionManager \<Rightarrow> notification list \<times> SubscriptionManager" where
  "checkConfigChange h m =
     (case stat_metadata_json h of
        None \<Rightarrow> ([], m)
      | Some mtimeMs \<Rightarrow>
          let current = \<lparr>config_mtime = mtimeMs\<rparr>;
              fired =
                (case configPrevious m of
                   None \<Rightarrow> []
                 | Some prev \<Rightarrow>
                     if config_mtime current \<noteq> config_mtime prev
                     then map (\<lambda>entry. ConfigCallback (entry_callback entry)
                                 \<lparr>ev_previous = prev, ev_current = current,
                                  ev_timestamp = Date_now h\<rparr>) (configEntries m)
                     else [])
          in (fired, m\<lparr>configPrevious := Some current\<rparr>))"

definition checkLibraryFolderChange ::
  "host \<Rightarrow> SubscriptionManager \<Rightarrow> notification list \<times> SubscriptionManager" where
  "checkLibraryFolderChange h m =
     (case stat_library_root h of
        None \<Rightarrow> ([], m)
      | Some mtimeMs \<Rightarrow>
          let current = \<lparr>folder_mtime = mtimeMs\<rparr>;
              fired =
                (case libraryFolderPrevious m of
                   None \<Rightarrow> []
                 | Some prev \<Rightarrow>
                     if folder_mtime current \<noteq> folder_mtime prev
                     then map (\<lambda>entry. LibraryFolderCallback (entry_callback entry)
                                 \<lparr>ev_previous = prev, ev_current = current,
                                  ev_timestamp = Date_now h\<rparr>) (libraryFolderEntries m)
                     else [])
          in (fired, m\<lparr>libraryFolderPrevious := Some current\<rparr>))"

subsection \<open>Subscribing to the selection pollers\<close>

text \<open>
  \<open>ensureItemWatcher\<close> starts the timer and makes the first check at once; the first
  check reads the host as the subscription finds it.
\<close>

definition ensureItemWatcher ::
  "host \<Rightarrow> SubscriptionManager \<Rightarrow> notification list \<times> SubscriptionManager" where
  "ensureItemWatcher h m =
     (if timerId (itemWatchers m) \<noteq> None then ([], m)
      else let minInterval = getMinInterval (entries (itemWatchers m))
           in checkItemChange h
                (m\<lparr>itemWatchers := (itemWatchers m)\<lparr>timerId := Some minInterval\<rparr>\<rparr>))"

definition subscribeItems ::
  "host \<Rightarrow> callback \<Rightarrow> SubscribeOptions \<Rightarrow> SubscriptionManager
     \<Rightarrow> notification list \<times> SubscriptionManager" where
  "subscribeItems h cb options m =
     (let entry = \<lparr>entry_callback = cb,
                   entry_interval = (case opt_interval options of Some i \<Rightarrow> i | None \<Rightarrow> 500),
                   entry_maxEqualLookups =
                     (case opt_maxEqualLookups options of Some n \<Rightarrow> n | None \<Rightarrow> -1)\<rparr>;
          m1 = m\<lparr>itemWatchers :=
                   (itemWatchers m)\<lparr>entries := entries (itemWatchers m) @ [entry]\<rparr>\<rparr>
      in ensureItemWatcher h (ensureLibraryWatcher h m1))"

definition ensureFolderWatcher ::
  "host \<Rightarrow> SubscriptionManager \<Rightarrow> notification list \<times> SubscriptionManager" where
  "ensureFolderWatcher h m =
     (if timerId (folderWatchers m) \<noteq> None then ([], m)
      else let minInterval = getMinInterval (entries (folderWatchers m))
           in checkFolderChange h
                (m\<lparr>folderWatchers := (folderWatchers m)\<lparr>timerId := Some minInterval\<rparr>\<rparr>))"

definition subscribeFolders ::
  "host \<Rightarrow> callback \<Rightarrow> SubscribeOptions \<Rightarrow> SubscriptionManager
     \<Rightarrow> notification list \<times> SubscriptionManager" where
  "subscribeFolders h cb options m =
     (let entry = \<lparr>entry_callback = cb,
                   entry_interval = (case opt_interval options of Some i \<Rightarrow> i | None \<Rightarrow> 500),
                   entry_maxEqualLookups =
                     (case opt_maxEqualLookups options of Some n \<Rightarrow> n | None \<Rightarrow> -1)\<rparr>;
          m1 = m\<lparr>folderWatchers :=
                   (folderWatchers m)\<lparr>entries := entries (folderWatchers m) @ [entry]\<rparr>\<rparr>
      in ensureFolderWatcher h (ensureLibraryWatcher h m1))"

subsection \<open>Runs of ticks\<close>

datatype poller = LibraryPoller | ItemPoller | FolderPoller | ConfigPoller | LibraryFolderPoller

fun tick :: "poller \<Rightarrow> host \<Rightarrow> SubscriptionManager \<Rightarrow> notification list \<times> SubscriptionManager"
  where
  "tick LibraryPoller h m = checkLibraryChange h m"
| "tick ItemPoller h m = checkItemChange h m"
| "tick FolderPoller h m = checkFolderChange h m"
| "tick ConfigPoller h m = checkConfigChange h m"
| "tick LibraryFolderPoller h m = checkLibraryFolderChange h m"

text \<open>The ticks of a run happen one after the other, each with its own reading of the host.\<close>

fun run_ticks ::
  "(poller \<times> host) list \<Rightarrow> SubscriptionManager \<Rightarrow> notification list \<times> SubscriptionManager"
  where
  "run_ticks [] m = ([], m)"
| "run_ticks ((p, h) # rest) m =
     (let (fired, m1) = tick p h m; (fired_rest, m2) = run_ticks rest m1
      in (fired @ fired_rest, m2))"

text \<open>The cached previous value of a child poller is "none".\<close>

fun baseline_cleared :: "poller \<Rightarrow> SubscriptionManager \<Rightarrow> bool" where
  "baseline_cleared LibraryPoller m = (libraryState m = None)"
| "baseline_cleared ItemPoller m = (previous (itemWatchers m) = None)"
| "baseline_cleared FolderPoller m = (previous (folderWatchers m) = None)"
| "baseline_cleared ConfigPoller m = (configPrevious m = None)"
| "baseline_cleared LibraryFolderPoller m = (libraryFolderPrevious m = None)"

text \<open>The cached previous value of a child poller is what the host \<open>h\<close> shows.\<close>

fun baseline_is :: "poller \<Rightarrow> host \<Rightarrow> SubscriptionManager \<Rightarrow> bool" where
  "baseline_is LibraryPoller h m = (libraryState m = Some (getLibraryState h))"
| "baseline_is ItemPoller h m =
     (previous (itemWatchers m) = map_option (map extractItem) (eagle_item_getSelected h))"
| "baseline_is FolderPoller h m =
     (previous (folderWatchers m) = map_option (map extractFolder) (eagle_folder_getSelected h))"
| "baseline_is ConfigPoller h m =
     (configPrevious m = map_option (\<lambda>t. \<lparr>config_mtime = t\<rparr>) (stat_metadata_json h))"
| "baseline_is LibraryFolderPoller h m =
     (libraryFolderPrevious m = map_option (\<lambda>t. \<lparr>folder_mtime = t\<rparr>) (stat_library_root h))"

subsection \<open>A sample run\<close>

definition item_with_id :: "string \<Rightarrow> Item" where
  "item_with_id i =
     \<lparr>item_id = i, item_name = i, item_ext = ''png'', item_width = 1, item_height = 1,
      item_url = [], item_isDeleted = False, item_annotation = [], item_tags = [],
      item_folders = [], item_palettes = [], item_size = 1, item_star = None,
      item_importedAt = 0, item_modifiedAt = 0, item_noThumbnail = False,
      item_noPreview = False, item_filePath = [], item_fileURL = [],
      item_thumbnailPath = [], item_thumbnailURL = [], item_metadataFilePath = []\<rparr>"

definition host_showing :: "string \<Rightarrow> string list \<Rightarrow> host" where
  "host_showing lib ids =
     \<lparr>eagle_library = Some \<lparr>ls_path = lib, ls_name = lib\<rparr>,
      eagle_item_getSelected = Some (map item_with_id ids),
      eagle_folder_getSelected = Some [],
      stat_metadata_json = Some 1,
      stat_library_root = Some 1,
      Date_now = 0\<rparr>"

definition watching_manager :: SubscriptionManager where
  "watching_manager =
     snd (subscribeItems (host_showing ''/A'' [''a'']) 7
            \<lparr>opt_interval = None, opt_maxEqualLookups = None\<rparr> new_SubscriptionManager)"

section \<open>SHA-256\<close>

text \<open>
  \<open>createHash('sha256').update(input).digest('hex')\<close> is the hash function of FIPS 180-4 on
  the UTF-8 bytes of \<open>input\<close>, printed in lower-case hexadecimal. Its 32-bit words are
  natural numbers below \<open>2^32\<close>, with the wrap-around of the addition written out.
\<close>

type_synonym u32 = nat

definition add32 :: "u32 \<Rightarrow> u32 \<Rightarrow> u32" where
  "add32 x y = (x + y) mod 2 ^ 32"

definition not32 :: "u32 \<Rightarrow> u32" where
  "not32 x = 2 ^ 32 - 1 - x mod 2 ^ 32"

definition shr :: "nat \<Rightarrow> u32 \<Rightarrow> u32" where
  "shr n x = x div 2 ^ n"

definition rotr :: "nat \<Rightarrow> u32 \<Rightarrow> u32" where
  "rotr n x = x div 2 ^ n + (x mod 2 ^ n) * 2 ^ (32 - n)"

definition Ch :: "u32 \<Rightarrow> u32 \<Rightarrow> u32 \<Rightarrow> u32" where
  "Ch x y z = (x AND y) XOR (not32 x AND z)"

definition Maj :: "u32 \<Rightarrow> u32 \<Rightarrow> u32 \<Rightarrow> u32" where
  "Maj x y z = (x AND y) XOR (x AND z) XOR (y AND z)"

definition Sigma0 :: "u32 \<Rightarrow> u32" where
  "Sigma0 x = rotr 2 x XOR rotr 13 x XOR rotr 22 x"

definition Sigma1 :: "u32 \<Rightarrow> u32" where
  "Sigma1 x = rotr 6 x XOR rotr 11 x XOR rotr 25 x"

definition sigma0 :: "u32 \<Rightarrow> u32" where
  "sigma0 x = rotr 7 x XOR rotr 18 x XOR shr 3 x"

definition sigma1 :: "u32 \<Rightarrow> u32" where
  "sigma1 x = rotr 17 x XOR rotr 19 x XOR shr 10 x"

text \<open>The round constants and the initial hash value of the standard, in decimal.\<close>

definition K256 :: "u32 list" where
  "K256 = [
   1116352408, 1899447441, 3049323471, 3921009573, 961987163, 1508970993,
   2453635748, 2870763221, 3624381080, 310598401, 607225278, 1426881987,
   1925078388, 2162078206, 2614888103, 3248222580, 3835390401, 4022224774,
   264347078, 604807628, 770255983, 1249150122, 1555081692, 1996064986,
   2554220882, 2821834349, 2952996808, 3210313671, 3336571891, 3584528711,
   113926993, 338241895, 666307205, 773529912, 1294757372, 1396182291,
   1695183700, 1986661051, 2177026350, 2456956037, 2730485921, 2820302411,
   3259730800, 3345764771, 3516065817, 3600352804, 4094571909, 275423344,
   430227734, 506948616, 659060556, 883997877, 958139571, 1322822218,
   1537002063, 1747873779, 1955562222, 2024104815, 2227730452, 2361852424,
   2428436474, 2756734187, 3204031479, 3329325298]"

type_synonym hash_state = "u32 \<times> u32 \<times> u32 \<times> u32 \<times> u32 \<times> u32 \<times> u32 \<times> u32"

definition H256_init :: hash_state where
  "H256_init = (1779033703, 3144134277, 1013904242, 2773480762,
                1359893119, 2600822924, 528734635, 1541459225)"

text \<open>
  Padding: the byte \<open>0x80\<close>, zero bytes up to 56 modulo 64, then the length of the message
  in bits on 8 bytes, most significant first.
\<close>

definition length_bytes :: "nat \<Rightarrow> nat list" where
  "length_bytes n =
     [n div 2 ^ 56 mod 256, n div 2 ^ 48 mod 256, n div 2 ^ 40 mod 256, n div 2 ^ 32 mod 256,
      n div 2 ^ 24 mod 256, n div 2 ^ 16 mod 256, n div 2 ^ 8 mod 256, n mod 256]"

definition pad :: "nat list \<Rightarrow> nat list" where
  "pad msg =
     (let l = length msg in
      msg @ [0x80] @ replicate ((119 - l mod 64) mod 64) 0 @ length_bytes (8 * l))"

text \<open>The padded message as big-endian 32-bit words, in blocks of sixteen.\<close>

fun be_words :: "nat list \<Rightarrow> u32 list" where
  "be_words (a # b # c # d # rest) =
     (a * 2 ^ 24 + b * 2 ^ 16 + c * 2 ^ 8 + d) # be_words rest"
| "be_words _ = []"

fun blocks :: "u32 list \<Rightarrow> u32 list list" where
  "blocks (w0 # w1 # w2 # w3 # w4 # w5 # w6 # w7 # w8 # w9 # w10 # w11 # w12 # w13 # w14
           # w15 # rest) =
     [w0, w1, w2, w3, w4, w5, w6, w7, w8, w9, w10, w11, w12, w13, w14, w15] # blocks rest"
| "blocks _ = []"

text \<open>
  One round. The state is the eight working variables and the window
  \<open>[W t, ..., W (t + 15)]\<close> of the message schedule; the round uses \<open>W t\<close> and moves the
  window by one word.
\<close>

fun round256 :: "hash_state \<times> u32 list \<Rightarrow> u32 \<Rightarrow> hash_state \<times> u32 list" where
  "round256 ((a, b, c, d, e, f, g, h),
             [w0, w1, w2, w3, w4, w5, w6, w7, w8, w9, w10, w11, w12, w13, w14, w15]) k =
     (let t1 = add32 (add32 (add32 (add32 h (Sigma1 e)) (Ch e f g)) k) w0;
          t2 = add32 (Sigma0 a) (Maj a b c)
      in ((add32 t1 t2, a, b, c, add32 d t1, e, f, g),
          [w1, w2, w3, w4, w5, w6, w7, w8, w9, w10, w11, w12, w13, w14, w15,
           add32 (add32 (add32 (sigma1 w14) w9) (sigma0 w1)) w0]))"
| "round256 st k = st"

fun add_state :: "hash_state \<Rightarrow> hash_state \<Rightarrow> hash_state" where
  "add_state (h0, h1, h2, h3, h4, h5, h6, h7) (a, b, c, d, e, f, g, h) =
     (add32 h0 a, add32 h1 b, add32 h2 c, add32 h3 d,
      add32 h4 e, add32 h5 f, add32 h6 g, add32 h7 h)"

definition compress :: "hash_state \<Rightarrow> u32 list \<Rightarrow> hash_state" where
  "compress hs block = add_state hs (fst (foldl round256 (hs, block) K256))"

definition sha256_state :: "nat list \<Rightarrow> hash_state" where
  "sha256_state msg = foldl compress H256_init (blocks (be_words (pad msg)))"

definition hex_digit :: "nat \<Rightarrow> char" where
  "hex_digit n = ''0123456789abcdef'' ! (n mod 16)"

definition hex_word :: "u32 \<Rightarrow> string" where
  "hex_word w =
     [hex_digit (w div 2 ^ 28), hex_digit (w div 2 ^ 24), hex_digit (w div 2 ^ 20),
      hex_digit (w div 2 ^ 16), hex_digit (w div 2 ^ 12), hex_digit (w div 2 ^ 8),
      hex_digit (w div 2 ^ 4), hex_digit w]"

fun hex_state :: "hash_state \<Rightarrow> string" where
  "hex_state (h0, h1, h2, h3, h4, h5, h6, h7) =
     hex_word h0 @ hex_word h1 @ hex_word h2 @ hex_word h3
     @ hex_word h4 @ hex_word h5 @ hex_word h6 @ hex_word h7"

definition digest_hex :: "nat list \<Rightarrow> string" where
  "digest_hex msg = hex_state (sha256_state msg)"

text \<open>UTF-8 of a string of code units below 256: one byte below 128, else two.\<close>

definition utf8 :: "string \<Rightarrow> nat list" where
  "utf8 s =
     concat (map (\<lambda>c. let n = (of_char c :: nat) in
                      if n < 128 then [n] else [192 + n div 64, 128 + n mod 64]) s)"

definition sha256 :: "string \<Rightarrow> string" where
  "sha256 input = take 16 (digest_hex (utf8 input))"


section \<open>Scoped configuration store (universal/config.ts)\<close>

subsection \<open>Files\<close>

text \<open>
  What \<open>JSON.parse\<close> returns. An object is the list of its keys and values, a key at
  most once. The store writes with \<open>JSON.stringify\<close> and reads with \<open>JSON.parse\<close>, which
  give a value of this type back as it was.
\<close>

datatype json =
    JNull
  | JBool bool
  | JNum rat
  | JStr string
  | JArr "json list"
  | JObj "(string \<times> json) list"

type_synonym ConfigData = "(string \<times> json) list"

text \<open>
  The world the store runs in: the host's answers, the plugin id set by
  \<open>initEagleConfig\<close>, and the file system. \<open>files w p = None\<close> when there is no file at
  \<open>p\<close> or its text is not JSON; both read the same way. Writes do not fail.
  \<open>randomUUID()\<close> formats the next 128 random bits of \<open>random_bits\<close>.
\<close>

record world =
  eagle_os_homedir :: string
  eagle_library_path :: string
  eagle_library_name :: string
  currentPluginId :: "string option"
  files :: "string \<rightharpoonup> json"
  random_bits :: "nat \<Rightarrow> nat"
  uuids_drawn :: nat

text \<open>
  A version-4 UUID: sixteen bytes in hexadecimal, grouped 4-2-2-2-6, with the version
  nibble 4 and the variant bits \<open>10\<close>.
\<close>

definition hex_byte :: "nat \<Rightarrow> string" where
  "hex_byte b = [hex_digit (b div 16), hex_digit b]"

definition uuid_bytes :: "nat \<Rightarrow> nat list" where
  "uuid_bytes n =
     (let bs = map (\<lambda>i. n div 256 ^ (15 - i) mod 256) [0..<16]
      in bs[6 := 64 + (bs ! 6) mod 16, 8 := 128 + (bs ! 8) mod 64])"

definition format_uuid :: "nat \<Rightarrow> string" where
  "format_uuid n =
     (let hs = map hex_byte (uuid_bytes n)
      in concat (take 4 hs) @ ''-'' @ concat (take 2 (drop 4 hs)) @ ''-''
         @ concat (take 2 (drop 6 hs)) @ ''-'' @ concat (take 2 (drop 8 hs)) @ ''-''
         @ concat (drop 10 hs))"

definition randomUUID :: "world \<Rightarrow> string \<times> world" where
  "randomUUID w = (format_uuid (random_bits w (uuids_drawn w)), w\<lparr>uuids_drawn := Suc (uuids_drawn w)\<rparr>)"

text \<open>\<open>path.join\<close>, for segments that need no normalising.\<close>

definition path_join :: "string \<Rightarrow> string \<Rightarrow> string" where
  "path_join a b = a @ ''/'' @ b"

definition CONFIG_DIR_NAME :: string where "CONFIG_DIR_NAME = ''.eaglecooler''"
definition CONFIG_SUBDIR :: string where "CONFIG_SUBDIR = ''config''"
definition CONFIG_FILES_global :: string where "CONFIG_FILES_global = ''global.json''"
definition CONFIG_FILES_globalPerPlugin :: string where
  "CONFIG_FILES_globalPerPlugin = ''globalPerPlugin.json''"
definition CONFIG_FILES_library :: string where "CONFIG_FILES_library = ''library.json''"
definition CONFIG_FILES_plugin :: string where "CONFIG_FILES_plugin = ''plugin.json''"
definition LIBRARY_UUID_FILENAME :: string where "LIBRARY_UUID_FILENAME = ''cooler-uuid.json''"

definition getConfigBasePath :: "world \<Rightarrow> string" where
  "getConfigBasePath w = path_join (path_join (eagle_os_homedir w) CONFIG_DIR_NAME) CONFIG_SUBDIR"

definition readJsonFile :: "world \<Rightarrow> string \<Rightarrow> json" where
  "readJsonFile w filePath = (case files w filePath of Some content \<Rightarrow> content | None \<Rightarrow> JObj [])"

definition writeJsonFile :: "string \<Rightarrow> ConfigData \<Rightarrow> world \<Rightarrow> world" where
  "writeJsonFile filePath data w = w\<lparr>files := (files w)(filePath \<mapsto> JObj data)\<rparr>"

definition getPluginId :: "world \<Rightarrow> string" where
  "getPluginId w = (case currentPluginId w of Some p \<Rightarrow> p | None \<Rightarrow> ''unknown-plugin'')"

definition initEagleConfig :: "string option \<Rightarrow> string option \<Rightarrow> world \<Rightarrow> world" where
  "initEagleConfig manifest_id manifest_name w =
     w\<lparr>currentPluginId :=
         Some (case manifest_id of
                 Some i \<Rightarrow> i
               | None \<Rightarrow> (case manifest_name of Some n \<Rightarrow> n | None \<Rightarrow> ''unknown-plugin''))\<rparr>"

subsection \<open>The library's UUID file\<close>

definition getLibraryUuidFilePath :: "world \<Rightarrow> string" where
  "getLibraryUuidFilePath w = path_join (eagle_library_path w) LIBRARY_UUID_FILENAME"

text \<open>
  \<open>data.uuid\<close> of the parsed file, \<open>None\<close> for \<open>undefined\<close>: no file, no JSON, a
  \<open>null\<close> document (the TypeError is caught) or a document without that property.
\<close>

definition readLibraryUuid :: "world \<Rightarrow> json option" where
  "readLibraryUuid w =
     (case files w (getLibraryUuidFilePath w) of
        Some (JObj kvs) \<Rightarrow> map_of kvs ''uuid''
      | _ \<Rightarrow> None)"

definition writeLibraryUuid :: "string \<Rightarrow> world \<Rightarrow> world" where
  "writeLibraryUuid uuid w =
     w\<lparr>files := (files w)(getLibraryUuidFilePath w \<mapsto> JObj [(''uuid'', JStr uuid)])\<rparr>"

text \<open>A value on which \<open>if (existingUuid)\<close> takes the else branch.\<close>

definition falsy :: "json \<Rightarrow> bool" where
  "falsy j = (j = JNull \<or> j = JBool False \<or> j = JNum 0 \<or> j = JStr [])"

text \<open>
  A stored uuid that is not a string is returned as it is and then meets string
  concatenation or the hash; that path is not modelled.
\<close>

definition getOrCreateLibraryUuid :: "world \<Rightarrow> (string \<times> world) outcome" where
  "getOrCreateLibraryUuid w =
     (let fresh = (let (newUuid, w1) = randomUUID w
                   in Returns (newUuid, writeLibraryUuid newUuid w1))
      in case readLibraryUuid w of
           None \<Rightarrow> fresh
         | Some existingUuid \<Rightarrow>
             if falsy existingUuid then fresh
             else (case existingUuid of JStr s \<Rightarrow> Returns (s, w) | _ \<Rightarrow> Unmodelled))"

definition getLibraryIdentifier :: "world \<Rightarrow> bool \<Rightarrow> string" where
  "getLibraryIdentifier w useNameAsIdentifier =
     (if useNameAsIdentifier then eagle_library_name w else eagle_library_path w)"

subsection \<open>The class EagleUserConfig\<close>

datatype ConfigType = Global | Pluginbased | Librarybased

record EagleUserConfig =
  config_type :: ConfigType
  thisPluginOnly :: bool
  useLibraryNameAsLibIdentifier :: bool
  useLibraryUuid :: bool

definition getConfigFilePath :: "world \<Rightarrow> EagleUserConfig \<Rightarrow> string" where
  "getConfigFilePath w cfg =
     (let basePath = getConfigBasePath w in
      case config_type cfg of
        Global \<Rightarrow>
          if thisPluginOnly cfg then path_join basePath CONFIG_FILES_globalPerPlugin
          else path_join basePath CONFIG_FILES_global
      | Pluginbased \<Rightarrow> path_join basePath CONFIG_FILES_plugin
      | Librarybased \<Rightarrow> path_join basePath CONFIG_FILES_library)"

definition getConfigKey :: "EagleUserConfig \<Rightarrow> world \<Rightarrow> (string option \<times> world) outcome" where
  "getConfigKey cfg w =
     (case config_type cfg of
        Global \<Rightarrow>
          if thisPluginOnly cfg then Returns (Some (sha256 (getPluginId w)), w)
          else Returns (None, w)
      | Pluginbased \<Rightarrow> Returns (Some (sha256 (getPluginId w)), w)
      | Librarybased \<Rightarrow>
          bind_outcome
            (if useLibraryUuid cfg then getOrCreateLibraryUuid w
             else Returns (getLibraryIdentifier w (useLibraryNameAsLibIdentifier cfg), w))
            (\<lambda>(libId, w1).
               if thisPluginOnly cfg then Returns (Some (sha256 (libId @ getPluginId w1)), w1)
               else Returns (Some (sha256 libId), w1)))"

definition loadFile :: "EagleUserConfig \<Rightarrow> world \<Rightarrow> json" where
  "loadFile cfg w = readJsonFile w (getConfigFilePath w cfg)"

definition saveFile :: "EagleUserConfig \<Rightarrow> ConfigData \<Rightarrow> world \<Rightarrow> world" where
  "saveFile cfg data w = writeJsonFile (getConfigFilePath w cfg) data w"

text \<open>
  \<open>(fileData[key] as ConfigData) ?? {}\<close>. The document read from the file is an object
  unless someone else wrote the file; reading a property of \<open>null\<close> throws, and what the
  code does with a document or a section of any other kind is not modelled.
\<close>

definition getSection :: "EagleUserConfig \<Rightarrow> world \<Rightarrow> (ConfigData \<times> world) outcome" where
  "getSection cfg w =
     (let fileData = loadFile cfg w in
      bind_outcome (getConfigKey cfg w) (\<lambda>(key, w1).
        case key of
          None \<Rightarrow> (case fileData of JObj kvs \<Rightarrow> Returns (kvs, w1) | _ \<Rightarrow> Unmodelled)
        | Some k \<Rightarrow>
            (case fileData of
               JObj kvs \<Rightarrow>
                 (case map_of kvs k of
                    None \<Rightarrow> Returns ([], w1)
                  | Some JNull \<Rightarrow> Returns ([], w1)
                  | Some (JObj section) \<Rightarrow> Returns (section, w1)
                  | Some _ \<Rightarrow> Unmodelled)
             | JNull \<Rightarrow> Throws TypeError
             | _ \<Rightarrow> Unmodelled)))"

definition saveSection :: "EagleUserConfig \<Rightarrow> ConfigData \<Rightarrow> world \<Rightarrow> (unit \<times> world) outcome"
  where
  "saveSection cfg sectionData w =
     bind_outcome (getConfigKey cfg w) (\<lambda>(key, w1).
       case key of
         None \<Rightarrow> Returns ((), saveFile cfg sectionData w1)
       | Some k \<Rightarrow>
           (case loadFile cfg w1 of
              JObj kvs \<Rightarrow> Returns ((), saveFile cfg (AList.update k (JObj sectionData) kvs) w1)
            | JNull \<Rightarrow> Throws TypeError
            | _ \<Rightarrow> Unmodelled))"

definition getAll :: "EagleUserConfig \<Rightarrow> world \<Rightarrow> (ConfigData \<times> world) outcome" where
  "getAll cfg w = getSection cfg w"

definition config_get :: "EagleUserConfig \<Rightarrow> string \<Rightarrow> world \<Rightarrow> (json option \<times> world) outcome"
  where
  "config_get cfg key w =
     bind_outcome (getSection cfg w) (\<lambda>(data, w1). Returns (map_of data key, w1))"

definition config_set :: "EagleUserConfig \<Rightarrow> string \<Rightarrow> json \<Rightarrow> world \<Rightarrow> (unit \<times> world) outcome"
  where
  "config_set cfg key v w =
     bind_outcome (getSection cfg w) (\<lambda>(data, w1).
       saveSection cfg (AList.update key v data) w1)"

definition setMany :: "EagleUserConfig \<Rightarrow> ConfigData \<Rightarrow> world \<Rightarrow> (unit \<times> world) outcome" where
  "setMany cfg vs w =
     bind_outcome (getSection cfg w) (\<lambda>(data, w1).
       saveSection cfg (foldl (\<lambda>d (k, v). AList.update k v d) data vs) w1)"

definition config_remove :: "EagleUserConfig \<Rightarrow> string \<Rightarrow> world \<Rightarrow> (bool \<times> world) outcome" where
  "config_remove cfg key w =
     bind_outcome (getSection cfg w) (\<lambda>(data, w1).
       if key \<in> fst ` set data
       then bind_outcome (saveSection cfg (AList.delete key data) w1)
              (\<lambda>(u, w2). Returns (True, w2))
       else Returns (False, w1))"

definition config_clear :: "EagleUserConfig \<Rightarrow> world \<Rightarrow> (unit \<times> world) outcome" where
  "config_clear cfg w = saveSection cfg [] w"

text \<open>The four operations that write.\<close>

datatype mutation = Set string json | SetMany ConfigData | Remove string | Clear

fun mutate :: "EagleUserConfig \<Rightarrow> mutation \<Rightarrow> world \<Rightarrow> world outcome" where
  "mutate cfg (Set k v) w = bind_outcome (config_set cfg k v w) (\<lambda>(u, w1). Returns w1)"
| "mutate cfg (SetMany vs) w = bind_outcome (setMany cfg vs w) (\<lambda>(u, w1). Returns w1)"
| "mutate cfg (Remove k) w = bind_outcome (config_remove cfg k w) (\<lambda>(b, w1). Returns w1)"
| "mutate cfg Clear w = bind_outcome (config_clear cfg w) (\<lambda>(u, w1). Returns w1)"

text \<open>The sections a config file holds: its keys and their values.\<close>

definition sections :: "EagleUserConfig \<Rightarrow> world \<Rightarrow> (string \<times> json) list" where
  "sections cfg w = (case loadFile cfg w of JObj kvs \<Rightarrow> kvs | _ \<Rightarrow> [])"

text \<open>What \<open>getSection\<close> makes of the document's entry for a section key.\<close>

definition section_of :: "(string \<times> json) list \<Rightarrow> string \<Rightarrow> ConfigData option" where
  "section_of kvs k =
     (case map_of kvs k of
        None \<Rightarrow> Some []
      | Some JNull \<Rightarrow> Some []
      | Some (JObj section) \<Rightarrow> Some section
      | Some _ \<Rightarrow> None)"

text \<open>A document as this store writes it: an object whose values are objects.\<close>

definition holds_sections :: "json \<Rightarrow> bool" where
  "holds_sections doc =
     (case doc of
        JObj kvs \<Rightarrow> list_all (\<lambda>(k, v). case v of JObj section \<Rightarrow> True | _ \<Rightarrow> False) kvs
      | _ \<Rightarrow> False)"

text \<open>Two worlds to run the store in: plugin \<open>P\<close>, library \<open>/L\<close>.\<close>

definition fresh_world :: world where
  "fresh_world =
     \<lparr>eagle_os_homedir = ''/home/u'', eagle_library_path = ''/L'', eagle_library_name = ''L'',
      currentPluginId = Some ''P'', files = Map.empty, random_bits = (\<lambda>n. n), uuids_drawn = 0\<rparr>"

definition used_world :: world where
  "used_world =
     fresh_world\<lparr>files :=
       [''/home/u/.eaglecooler/config/library.json'' \<mapsto>
          JObj [(''3efad9de18f7f2f1'', JObj [(''k'', JNum 1)])]]\<rparr>"

definition createLibraryConfig :: "bool \<Rightarrow> EagleUserConfig" where
  "createLibraryConfig useLibraryName =
     \<lparr>config_type = Librarybased, thisPluginOnly = False,
      useLibraryNameAsLibIdentifier = useLibraryName, useLibraryUuid = False\<rparr>"

definition createLibraryPluginConfig :: "bool \<Rightarrow> EagleUserConfig" where
  "createLibraryPluginConfig useLibraryName =
     \<lparr>config_type = Librarybased, thisPluginOnly = True,
      useLibraryNameAsLibIdentifier = useLibraryName, useLibraryUuid = False\<rparr>"

section \<open>Properties of the filter engine\<close>

text \<open>
  C3: a filter with no conditions accepts every item, and a condition with no rules is
  satisfied by every item, whichever match mode it carries.
\<close>

theorem C3_empty_matches_everything:
  "matchesFilter item \<lparr>filter_conditions = [], filter_match = fm\<rparr> = Returns True
   \<and> matchesCondition item \<lparr>cond_rules = [], cond_match = cm\<rparr> = Returns True"
  by (simp add: matchesFilter_def matchesCondition_def)


lemma string_method_on_non_string:
  assumes "m \<in> set string_methods" and "\<not> is_string (item p)"
  shows "matchesRule item \<lparr>rule_property = p, rule_method = m, rule_value = r\<rparr> = Returns False"
  using assms
  by (cases "item p") (auto simp: matchesRule_def string_methods_def is_string_def)

lemma numeric_method_on_non_number:
  assumes "m \<in> set numeric_methods" and "\<not> is_number (item p)"
  shows "matchesRule item \<lparr>rule_property = p, rule_method = m, rule_value = r\<rparr> = Returns False"
  using assms
  by (cases "item p") (auto simp: matchesRule_def numeric_methods_def is_number_def)

lemma set_method_on_non_array:
  assumes "m \<in> set set_methods" and "\<not> is_array (item p) \<or> \<not> is_array r"
  shows "matchesRule item \<lparr>rule_property = p, rule_method = m, rule_value = r\<rparr> = Returns False"
  using assms
  by (cases "item p"; cases r) (auto simp: matchesRule_def set_methods_def is_array_def)

lemma unknown_method:
  assumes "m \<notin> set known_methods"
  shows "matchesRule item \<lparr>rule_property = p, rule_method = m, rule_value = r\<rparr> = Returns False"
  using assms
  by (simp add: matchesRule_def known_methods_def string_methods_def numeric_methods_def
      set_methods_def)

text \<open>
  C4: a rule whose method cannot apply to the item's property value (a string method on a
  non-string, a numeric method on a non-number, a set method when either side is not an
  array) or whose method is unknown evaluates to false: it returns, it does not throw,
  and the rule's value is never converted.
\<close>

theorem C4_type_mismatch_returns_false:
  assumes "precondition_fails m (item p) r"
  shows "matchesRule item \<lparr>rule_property = p, rule_method = m, rule_value = r\<rparr> = Returns False"
  using assms string_method_on_non_string numeric_method_on_non_number
    set_method_on_non_array unknown_method
  unfolding precondition_fails_def by blast

theorem C4_type_mismatch_witness:
  "precondition_fails ''contains'' (tagged_item ''tags'') (Str ''photo'')
   \<and> matchesRule tagged_item
        \<lparr>rule_property = ''tags'', rule_method = ''contains'', rule_value = Str ''photo''\<rparr>
      = Returns False
   \<and> precondition_fails ''gte'' (tagged_item ''name'') (Num (Finite 1))
   \<and> matchesRule tagged_item
        \<lparr>rule_property = ''name'', rule_method = ''gte'', rule_value = Num (Finite 1)\<rparr>
      = Returns False
   \<and> precondition_fails ''includesAny'' (tagged_item ''tags'') (Str ''photo'')
   \<and> matchesRule tagged_item
        \<lparr>rule_property = ''tags'', rule_method = ''includesAny'', rule_value = Str ''photo''\<rparr>
      = Returns False
   \<and> precondition_fails ''like'' (tagged_item ''name'') (Str ''a'')
   \<and> matchesRule tagged_item
        \<lparr>rule_property = ''name'', rule_method = ''like'', rule_value = Str ''a''\<rparr>
      = Returns False"
proof -
  have h1: "precondition_fails ''contains'' (tagged_item ''tags'') (Str ''photo'')"
    by (simp add: precondition_fails_def string_methods_def is_string_def tagged_item_def)
  have h2: "precondition_fails ''gte'' (tagged_item ''name'') (Num (Finite 1))"
    by (simp add: precondition_fails_def numeric_methods_def is_number_def tagged_item_def)
  have h3: "precondition_fails ''includesAny'' (tagged_item ''tags'') (Str ''photo'')"
    by (simp add: precondition_fails_def set_methods_def is_array_def tagged_item_def)
  have h4: "precondition_fails ''like'' (tagged_item ''name'') (Str ''a'')"
    by (simp add: precondition_fails_def known_methods_def string_methods_def
        numeric_methods_def set_methods_def)
  show ?thesis
    using h1 h2 h3 h4
      C4_type_mismatch_returns_false [of "''contains''" tagged_item "''tags''" "Str ''photo''"]
      C4_type_mismatch_returns_false [of "''gte''" tagged_item "''name''" "Num (Finite 1)"]
      C4_type_mismatch_returns_false [of "''includesAny''" tagged_item "''tags''" "Str ''photo''"]
      C4_type_mismatch_returns_false [of "''like''" tagged_item "''name''" "Str ''a''"]
    by simp
qed

lemma bind_outcome_Returns_iff:
  "bind_outcome x f = Returns y \<longleftrightarrow> (\<exists>a. x = Returns a \<and> f a = Returns y)"
  by (cases x) auto

text \<open>
  C6: on the same property value and the same rule value, a method that returns true has
  a dual that returns false, for the three dual pairs \<open>is\<close>/\<open>isNot\<close>,
  \<open>contains\<close>/\<open>notContains\<close> and \<open>isEmpty\<close>/\<open>isNotEmpty\<close>, in both directions.
\<close>

theorem C6_dual_returns_false:
  assumes "dual_method m = Some m'"
    and "matchesRule item \<lparr>rule_property = p, rule_method = m, rule_value = r\<rparr> = Returns True"
  shows "matchesRule item \<lparr>rule_property = p, rule_method = m', rule_value = r\<rparr> = Returns False"
proof -
  from assms(1) consider
      "m = ''is''" "m' = ''isNot''" | "m = ''isNot''" "m' = ''is''"
    | "m = ''contains''" "m' = ''notContains''" | "m = ''notContains''" "m' = ''contains''"
    | "m = ''isEmpty''" "m' = ''isNotEmpty''" | "m = ''isNotEmpty''" "m' = ''isEmpty''"
    by (auto simp: dual_method_def split: if_splits)
  then show ?thesis
  proof cases
    case 1 with assms(2) show ?thesis by (simp add: matchesRule_def)
  next
    case 2 with assms(2) show ?thesis by (simp add: matchesRule_def)
  next
    case 3 with assms(2) show ?thesis
      by (cases "item p") (auto simp: matchesRule_def bind_outcome_Returns_iff)
  next
    case 4 with assms(2) show ?thesis
      by (cases "item p") (auto simp: matchesRule_def bind_outcome_Returns_iff)
  next
    case 5 with assms(2) show ?thesis by (simp add: matchesRule_def)
  next
    case 6 with assms(2) show ?thesis by (simp add: matchesRule_def)
  qed
qed

theorem C6_dual_witness:
  "dual_method ''contains'' = Some ''notContains''
   \<and> matchesRule wallpaper_item
        \<lparr>rule_property = ''name'', rule_method = ''contains'', rule_value = Str ''paper''\<rparr>
      = Returns True
   \<and> matchesRule wallpaper_item
        \<lparr>rule_property = ''name'', rule_method = ''notContains'', rule_value = Str ''paper''\<rparr>
      = Returns False"
proof -
  have h1: "dual_method ''contains'' = Some ''notContains''"
    by (simp add: dual_method_def)
  have h2: "matchesRule wallpaper_item
      \<lparr>rule_property = ''name'', rule_method = ''contains'', rule_value = Str ''paper''\<rparr>
    = Returns True"
    by code_simp
  show ?thesis
    using h1 h2
      C6_dual_returns_false [of "''contains''" "''notContains''" wallpaper_item "''name''"
        "Str ''paper''"]
    by simp
qed

lemma of_char_Canonicalize:
  "(of_char (Canonicalize ic c) :: nat) =
     (if ic \<and> ((97 \<le> (of_char c :: nat) \<and> (of_char c :: nat) \<le> 122)
              \<or> (224 \<le> (of_char c :: nat) \<and> (of_char c :: nat) \<le> 254 \<and> (of_char c :: nat) \<noteq> 247))
      then (of_char c :: nat) - 32 else of_char c)"
proof -
  define n where "n = (of_char c :: nat)"
  have b: "n < 256" unfolding n_def by (rule nat_of_char_less_256)
  then have "(n - 32) mod 256 = n - 32" by simp
  then show ?thesis
    unfolding Canonicalize_def Let_def n_def [symmetric]
    by (auto simp add: of_char_of n_def [symmetric])
qed

lemma Canonicalize_idem: "Canonicalize ic (Canonicalize ic c) = Canonicalize ic c"
proof -
  define n where "n = (of_char c :: nat)"
  have "(of_char (Canonicalize ic (Canonicalize ic c)) :: nat) = of_char (Canonicalize ic c)"
    unfolding of_char_Canonicalize [of ic "Canonicalize ic c"]
    unfolding of_char_Canonicalize [of ic c] n_def [symmetric]
    by auto
  then show ?thesis by (simp only: of_char_eq_iff)
qed

lemma line_terminator_iff: "line_terminator c \<longleftrightarrow> (of_char c :: nat) = 10 \<or> (of_char c :: nat) = 13"
proof -
  have "(c = CHR 0x0A) = ((of_char c :: nat) = of_char (CHR 0x0A))" 
    by (simp only: of_char_eq_iff)
  moreover have "(c = CHR 0x0D) = ((of_char c :: nat) = of_char (CHR 0x0D))" 
    by (simp only: of_char_eq_iff)
  ultimately show ?thesis by (simp add: line_terminator_def)
qed

lemma line_terminator_Canonicalize: "line_terminator (Canonicalize ic c) = line_terminator c"
  unfolding line_terminator_iff of_char_Canonicalize by auto

lemma match_here_upper:
  "match_here ic as (map (Canonicalize ic) s) st = match_here ic as s st"
  by (induction ic as s st rule: match_here.induct)
     (simp_all add: Canonicalize_idem line_terminator_Canonicalize)

lemma search_from_upper:
  "search_from ic as (map (Canonicalize ic) s) st = search_from ic as s st"
  by (induction ic as s st rule: search_from.induct)
     (simp_all add: match_here_upper [of _ _ "_ # _", simplified])

lemma regex_test_upper: "regex_test r (map (Canonicalize (ignoreCase r)) s) = regex_test r s"
  by (simp add: regex_test_def search_from_upper)

lemma RegExp_new_i_ignoreCase: "RegExp_new pat ''i'' = Returns re \<Longrightarrow> ignoreCase re"
  by (auto simp: RegExp_new_def split: if_splits option.splits)

lemma compiled_i_test_upper:
  "bind_outcome (RegExp_new pat ''i'') (\<lambda>regex. Returns (regex_test regex (map (Canonicalize True) s)))
   = bind_outcome (RegExp_new pat ''i'') (\<lambda>regex. Returns (regex_test regex s))"
proof (cases "RegExp_new pat ''i''")
  case (Returns re)
  then have "ignoreCase re = True" by (simp add: RegExp_new_i_ignoreCase)
  then have "regex_test re (map (Canonicalize True) s) = regex_test re s"
    using regex_test_upper [of re s] by simp
  with Returns show ?thesis by simp
qed simp_all

lemma matches_upper_case_subject:
  "matchesRule (item(p := Str (map (Canonicalize True) s)))
      \<lparr>rule_property = p, rule_method = ''matches'', rule_value = r\<rparr>
   = matchesRule (item(p := Str s))
      \<lparr>rule_property = p, rule_method = ''matches'', rule_value = r\<rparr>"
  by (cases "js_String r") (simp_all add: matchesRule_def compiled_i_test_upper)

lemma builder_stores_matches_value:
  "build (builder_matches (builder_where new_ItemFilterBuilder p) regex)
   = \<lparr>filter_conditions =
        [\<lparr>cond_rules =
            [\<lparr>rule_property = p, rule_method = ''matches'',
              rule_value = (case regex of IsRegExp r \<Rightarrow> Str (source r) | IsString s \<Rightarrow> Str s)\<rparr>],
          cond_match = MatchAND\<rparr>],
      filter_match = MatchAND\<rparr>"
  by (simp add: build_def builder_matches_def builder_where_def new_ItemFilterBuilder_def
      addRule_def)

lemma wallpaper_matches_wallpaper:
  "matchesRule wallpaper_item
     \<lparr>rule_property = ''name'', rule_method = ''matches'', rule_value = Str ''wallpaper''\<rparr>
   = Returns True"
  by code_simp

lemma wallpaper_matches_anchored_wall:
  "matchesRule wallpaper_item
     \<lparr>rule_property = ''name'', rule_method = ''matches'', rule_value = Str ''^wall''\<rparr>
   = Returns True"
  by code_simp

lemma wallpaper_not_matches_anchored_paper:
  "matchesRule wallpaper_item
     \<lparr>rule_property = ''name'', rule_method = ''matches'', rule_value = Str ''^paper''\<rparr>
   = Returns False"
  by code_simp

text \<open>
  C5: the \<open>matches\<close> terminator takes a compiled regular expression or a pattern string
  and stores a compiled one by its source; evaluation ignores case (the result does not
  change when the tested string is put in upper case); the item named
  \<open>Wallpaper_01.png\<close> matches \<open>wallpaper\<close> and \<open>^wall\<close> and does not match \<open>^paper\<close>.
\<close>

theorem C5_matches_source_and_case:
  "build (builder_matches (builder_where new_ItemFilterBuilder p) (IsRegExp re))
     = \<lparr>filter_conditions =
          [\<lparr>cond_rules =
              [\<lparr>rule_property = p, rule_method = ''matches'', rule_value = Str (source re)\<rparr>],
            cond_match = MatchAND\<rparr>],
        filter_match = MatchAND\<rparr>
   \<and> build (builder_matches (builder_where new_ItemFilterBuilder p) (IsString pat))
     = \<lparr>filter_conditions =
          [\<lparr>cond_rules =
              [\<lparr>rule_property = p, rule_method = ''matches'', rule_value = Str pat\<rparr>],
            cond_match = MatchAND\<rparr>],
        filter_match = MatchAND\<rparr>
   \<and> matchesRule (item(q := Str (map (Canonicalize True) s)))
        \<lparr>rule_property = q, rule_method = ''matches'', rule_value = r\<rparr>
     = matchesRule (item(q := Str s))
        \<lparr>rule_property = q, rule_method = ''matches'', rule_value = r\<rparr>
   \<and> matchesRule wallpaper_item
        \<lparr>rule_property = ''name'', rule_method = ''matches'', rule_value = Str ''wallpaper''\<rparr>
     = Returns True
   \<and> matchesRule wallpaper_item
        \<lparr>rule_property = ''name'', rule_method = ''matches'', rule_value = Str ''^wall''\<rparr>
     = Returns True
   \<and> matchesRule wallpaper_item
        \<lparr>rule_property = ''name'', rule_method = ''matches'', rule_value = Str ''^paper''\<rparr>
     = Returns False"
  using builder_stores_matches_value [of p "IsRegExp re"]
    builder_stores_matches_value [of p "IsString pat"]
    matches_upper_case_subject [of item q s r]
    wallpaper_matches_wallpaper wallpaper_matches_anchored_wall
    wallpaper_not_matches_anchored_paper
  by simp

text \<open>
  C10: evaluation of \<open>matches\<close> is not total. On a property that is a string, the rule
  value \<open>"("\<close> is not a valid pattern, and the rule throws a SyntaxError where a mismatch
  would have returned false.
\<close>

theorem C10_matches_throws_on_invalid_pattern:
  "matchesRule ((\<lambda>_. Undefined)(p := Str s))
     \<lparr>rule_property = p, rule_method = ''matches'', rule_value = Str ''(''\<rparr>
   = Throws SyntaxError"
  by (simp add: matchesRule_def RegExp_new_def beyond_fragment_def)

section \<open>Properties of the subscription manager\<close>

lemma tick_other_keeps_cleared:
  "p \<noteq> LibraryPoller \<Longrightarrow> q \<noteq> p \<Longrightarrow> baseline_cleared p m \<Longrightarrow> baseline_cleared p (snd (tick q h m))"
  by (cases p; cases q)
     (auto simp: checkLibraryChange_def checkItemChange_def checkFolderChange_def
        checkConfigChange_def checkLibraryFolderChange_def resetChildWatchers_def Let_def
        split: option.splits)

lemma tick_library_keeps_cleared:
  "p \<noteq> LibraryPoller \<Longrightarrow> baseline_cleared p m \<Longrightarrow> baseline_cleared p (snd (tick LibraryPoller h m))"
  by (cases p)
     (auto simp: checkLibraryChange_def resetChildWatchers_def Let_def split: option.splits)

lemma run_ticks_keeps_cleared:
  "p \<noteq> LibraryPoller \<Longrightarrow> p \<notin> set (map fst ts) \<Longrightarrow> baseline_cleared p m
   \<Longrightarrow> baseline_cleared p (snd (run_ticks ts m))"
proof (induction ts arbitrary: m)
  case Nil
  then show ?case by simp
next
  case (Cons a ts)
  obtain q h where a: "a = (q, h)" by (cases a)
  with Cons.prems have "q \<noteq> p" by auto
  then have "baseline_cleared p (snd (tick q h m))"
    using Cons.prems tick_other_keeps_cleared by blast
  moreover have "p \<notin> set (map fst ts)" using Cons.prems by simp
  ultimately have "baseline_cleared p (snd (run_ticks ts (snd (tick q h m))))"
    using Cons.IH Cons.prems(1) by blast
  then show ?case
    by (simp add: a case_prod_beta)
qed

lemma tick_from_cleared:
  "p \<noteq> LibraryPoller \<Longrightarrow> baseline_cleared p m \<Longrightarrow>
   fst (tick p h m) = [] \<and> (baseline_is p h (snd (tick p h m)))"
  by (cases p)
     (auto simp: checkItemChange_def checkFolderChange_def
        checkConfigChange_def checkLibraryFolderChange_def Let_def
        split: option.splits)

lemma library_change_resets:
  assumes "libraryState m = Some prev" and "ls_path (getLibraryState h) \<noteq> ls_path prev"
  shows "fst (checkLibraryChange h m) =
           map (\<lambda>cb. LibraryCallback cb \<lparr>ev_previous = prev, ev_current = getLibraryState h, ev_timestamp = Date_now h\<rparr>) (libraryCallbacks m)"
    and "snd (checkLibraryChange h m) = (resetChildWatchers m)\<lparr>libraryState := Some (getLibraryState h)\<rparr>"
    and "p \<noteq> LibraryPoller \<Longrightarrow> baseline_cleared p (snd (checkLibraryChange h m))"
  using assms
  by (cases p; simp add: checkLibraryChange_def resetChildWatchers_def Let_def)+


text \<open>
  C1: when the library poller sees another path than the one it cached, it calls every
  library-change callback with the old and the new state and clears the cached previous
  value of the four child pollers. Whatever other pollers tick in between, the next tick
  of a child poller calls no callback and stores what it reads from the host as its new
  previous value.
\<close>

theorem C1_library_switch_cascade:
  assumes "libraryState m = Some prev"
    and "ls_path (getLibraryState h) \<noteq> ls_path prev"
    and "child \<noteq> LibraryPoller"
    and "child \<notin> set (map fst between)"
  shows "fst (checkLibraryChange h m) =
           map (\<lambda>cb. LibraryCallback cb
                  \<lparr>ev_previous = prev, ev_current = getLibraryState h,
                   ev_timestamp = Date_now h\<rparr>) (libraryCallbacks m)
       \<and> snd (checkLibraryChange h m)
           = (resetChildWatchers m)\<lparr>libraryState := Some (getLibraryState h)\<rparr>
       \<and> baseline_cleared child (snd (checkLibraryChange h m))
       \<and> fst (tick child h' (snd (run_ticks between (snd (checkLibraryChange h m))))) = []
       \<and> baseline_is child h'
           (snd (tick child h' (snd (run_ticks between (snd (checkLibraryChange h m))))))"
proof -
  let ?m1 = "snd (checkLibraryChange h m)"
  have c: "baseline_cleared child ?m1"
    using library_change_resets(3) [OF assms(1,2,3)] .
  have "baseline_cleared child (snd (run_ticks between ?m1))"
    using run_ticks_keeps_cleared [OF assms(3,4) c] .
  then show ?thesis
    using library_change_resets(1,2) [OF assms(1,2)] c tick_from_cleared [OF assms(3)]
    by simp
qed


theorem C1_library_switch_witness:
  "libraryState watching_manager = Some \<lparr>ls_path = ''/A'', ls_name = ''/A''\<rparr>
   \<and> ls_path (getLibraryState (host_showing ''/B'' [''b''])) \<noteq> ''/A''
   \<and> previous (itemWatchers watching_manager) = Some [extractItem (item_with_id ''a'')]
   \<and> fst (checkLibraryChange (host_showing ''/B'' [''b'']) watching_manager) = []
   \<and> baseline_cleared ItemPoller (snd (checkLibraryChange (host_showing ''/B'' [''b'']) watching_manager))
   \<and> fst (tick ItemPoller (host_showing ''/B'' [''b''])
        (snd (run_ticks [(FolderPoller, host_showing ''/B'' [''b'']),
                         (LibraryPoller, host_showing ''/B'' [''b''])]
               (snd (checkLibraryChange (host_showing ''/B'' [''b'']) watching_manager))))) = []
   \<and> fst (tick ItemPoller (host_showing ''/B'' [''b'']) watching_manager) \<noteq> []"
proof -
  have h1: "libraryState watching_manager = Some \<lparr>ls_path = ''/A'', ls_name = ''/A''\<rparr>"
    by (simp add: watching_manager_def subscribeItems_def ensureItemWatcher_def
        ensureLibraryWatcher_def new_SubscriptionManager_def host_showing_def
        getMinInterval_def checkItemChange_def getLibraryState_def)
  have h2: "ls_path (getLibraryState (host_showing ''/B'' [''b'']))
            \<noteq> ls_path \<lparr>ls_path = ''/A'', ls_name = ''/A''\<rparr>"
    by (simp add: host_showing_def getLibraryState_def)
  have h3: "ItemPoller \<noteq> LibraryPoller" by simp
  have h4: "ItemPoller \<notin> set (map fst [(FolderPoller, host_showing ''/B'' [''b'']),
                         (LibraryPoller, host_showing ''/B'' [''b''])])" by simp
  have p: "previous (itemWatchers watching_manager) = Some [extractItem (item_with_id ''a'')]"
    by (simp add: watching_manager_def subscribeItems_def ensureItemWatcher_def
        ensureLibraryWatcher_def new_SubscriptionManager_def host_showing_def
        getMinInterval_def checkItemChange_def getLibraryState_def)
  have cbs: "libraryCallbacks watching_manager = []"
    by (simp add: watching_manager_def subscribeItems_def ensureItemWatcher_def
        ensureLibraryWatcher_def new_SubscriptionManager_def host_showing_def
        getMinInterval_def checkItemChange_def getLibraryState_def)
  have e: "entries (itemWatchers watching_manager) = [\<lparr>entry_callback = 7, entry_interval = 500, entry_maxEqualLookups = -1\<rparr>]"
    by (simp add: watching_manager_def subscribeItems_def ensureItemWatcher_def
        ensureLibraryWatcher_def new_SubscriptionManager_def host_showing_def
        getMinInterval_def checkItemChange_def getLibraryState_def)
  have f: "fst (tick ItemPoller (host_showing ''/B'' [''b'']) watching_manager) \<noteq> []"
    by (simp add: checkItemChange_def p e host_showing_def hasSelectionChanged_def extractItem_def item_with_id_def Let_def)
  note inst = C1_library_switch_cascade [OF h1 h2 h3 h4, of "host_showing ''/B'' [''b'']"]
  have h2': "ls_path (getLibraryState (host_showing ''/B'' [''b''])) \<noteq> ''/A''"
    using h2 by simp
  have a: "fst (checkLibraryChange (host_showing ''/B'' [''b'']) watching_manager) = []"
    using inst cbs by simp
  have b: "baseline_cleared ItemPoller
             (snd (checkLibraryChange (host_showing ''/B'' [''b'']) watching_manager))"
    using inst by blast
  have c: "fst (tick ItemPoller (host_showing ''/B'' [''b''])
        (snd (run_ticks [(FolderPoller, host_showing ''/B'' [''b'']),
                         (LibraryPoller, host_showing ''/B'' [''b''])]
               (snd (checkLibraryChange (host_showing ''/B'' [''b'']) watching_manager))))) = []"
    using inst by blast
  show ?thesis
    using h1 h2' p a b c f by blast
qed

lemma subscribeItems_keeps_running_timer:
  "timerId (itemWatchers m) = Some t \<Longrightarrow>
   timerId (itemWatchers (snd (subscribeItems h cb options m))) = Some t"
  by (simp add: subscribeItems_def ensureItemWatcher_def ensureLibraryWatcher_def Let_def)

lemma first_subscription_timer:
  "timerId (itemWatchers m) = None \<Longrightarrow> entries (itemWatchers m) = [] \<Longrightarrow>
   timerId (itemWatchers (snd (subscribeItems h cb options m)))
     = Some (min 500 (case opt_interval options of Some i \<Rightarrow> i | None \<Rightarrow> 500))"
  by (auto simp add: subscribeItems_def ensureItemWatcher_def ensureLibraryWatcher_def Let_def
      getMinInterval_def checkItemChange_def split: option.splits)

text \<open>
  C2: the code at the claim's inputs. A first subscriber asks for 500 ms and a second for
  100 ms: the timer keeps running at 500 ms, while the smallest requested interval is 100.
  A sole subscriber asks for 1000 ms: the timer runs at 500 ms.
\<close>

theorem C2_later_subscriber_keeps_first_interval:
  "timerId (itemWatchers (snd (subscribeItems h2 2 \<lparr>opt_interval = Some 100, opt_maxEqualLookups = None\<rparr>
      (snd (subscribeItems h1 1 \<lparr>opt_interval = Some 500, opt_maxEqualLookups = None\<rparr>
             new_SubscriptionManager))))) = Some 500
   \<and> map entry_interval (entries (itemWatchers (snd (subscribeItems h2 2 \<lparr>opt_interval = Some 100, opt_maxEqualLookups = None\<rparr>
      (snd (subscribeItems h1 1 \<lparr>opt_interval = Some 500, opt_maxEqualLookups = None\<rparr>
             new_SubscriptionManager)))))) = [500, 100]
   \<and> timerId (itemWatchers (snd (subscribeItems h1 1 \<lparr>opt_interval = Some 1000, opt_maxEqualLookups = None\<rparr>
             new_SubscriptionManager))) = Some 500"
  by (auto simp add: subscribeItems_def ensureItemWatcher_def ensureLibraryWatcher_def Let_def
      getMinInterval_def checkItemChange_def new_SubscriptionManager_def split: option.splits)


section \<open>Properties of the configuration store\<close>

lemma config_path_not_uuid_path: "getConfigFilePath w cfg \<noteq> getLibraryUuidFilePath w2"
proof
  assume eq: "getConfigFilePath w cfg = getLibraryUuidFilePath w2"
  have "rev (getLibraryUuidFilePath w2) ! 5 = CHR ''d''"
    by (simp add: getLibraryUuidFilePath_def path_join_def LIBRARY_UUID_FILENAME_def)
  moreover have "rev (getConfigFilePath w cfg) ! 5 \<noteq> CHR ''d''"
    by (cases "config_type cfg")
       (simp_all add: getConfigFilePath_def path_join_def Let_def CONFIG_FILES_global_def
          CONFIG_FILES_globalPerPlugin_def CONFIG_FILES_plugin_def CONFIG_FILES_library_def)
  ultimately show False using eq by simp
qed

lemma length_hex_byte: "length (hex_byte b) = 2"
  by (simp add: hex_byte_def)

lemma format_uuid_nonempty: "format_uuid n \<noteq> []"
  by (simp add: format_uuid_def Let_def)

lemma getOrCreateLibraryUuid_frame:
  assumes "getOrCreateLibraryUuid w = Returns (u, w1)"
  shows "eagle_os_homedir w1 = eagle_os_homedir w"
    and "eagle_library_path w1 = eagle_library_path w"
    and "eagle_library_name w1 = eagle_library_name w"
    and "currentPluginId w1 = currentPluginId w"
    and "p \<noteq> getLibraryUuidFilePath w \<Longrightarrow> files w1 p = files w p"
    and "readLibraryUuid w1 = Some (JStr u)" and "u \<noteq> []"
  using assms
  by (auto simp: getOrCreateLibraryUuid_def Let_def writeLibraryUuid_def randomUUID_def
      readLibraryUuid_def getLibraryUuidFilePath_def falsy_def format_uuid_nonempty
      split: option.splits if_splits json.splits)


lemma getConfigKey_frame:
  assumes "getConfigKey cfg w = Returns (k, w1)"
  shows "eagle_os_homedir w1 = eagle_os_homedir w"
    and "eagle_library_path w1 = eagle_library_path w"
    and "eagle_library_name w1 = eagle_library_name w"
    and "currentPluginId w1 = currentPluginId w"
    and "p \<noteq> getLibraryUuidFilePath w \<Longrightarrow> files w1 p = files w p"
  using assms getOrCreateLibraryUuid_frame(1-5) [of w _ w1]
  by (auto simp: getConfigKey_def bind_outcome_Returns_iff
      split: ConfigType.splits if_splits prod.splits)

lemma getConfigKey_paths:
  assumes "getConfigKey cfg w = Returns (k, w1)"
  shows "getConfigFilePath w1 cfg' = getConfigFilePath w cfg'"
    and "getLibraryUuidFilePath w1 = getLibraryUuidFilePath w"
    and "getPluginId w1 = getPluginId w"
    and "loadFile cfg' w1 = loadFile cfg' w"
proof -
  note fr = getConfigKey_frame [OF assms]
  show p: "getConfigFilePath w1 cfg' = getConfigFilePath w cfg'"
    by (simp add: getConfigFilePath_def getConfigBasePath_def fr)
  show "getLibraryUuidFilePath w1 = getLibraryUuidFilePath w"
    by (simp add: getLibraryUuidFilePath_def fr)
  show "getPluginId w1 = getPluginId w"
    by (simp add: getPluginId_def fr)
  have "files w1 (getConfigFilePath w cfg') = files w (getConfigFilePath w cfg')"
    using fr(5) config_path_not_uuid_path by blast
  then show "loadFile cfg' w1 = loadFile cfg' w"
    by (simp add: loadFile_def readJsonFile_def p)
qed

lemma getConfigKey_again:
  assumes "getConfigKey cfg w = Returns (k, w1)"
  shows "getConfigKey cfg w1 = Returns (k, w1)"
proof (cases "config_type cfg = Librarybased \<and> useLibraryUuid cfg")
  case False
  then have "w1 = w"
    using assms
    by (auto simp: getConfigKey_def bind_outcome_Returns_iff split: ConfigType.splits if_splits)
  with assms show ?thesis by simp
next
  case True
  then obtain u where u: "getOrCreateLibraryUuid w = Returns (u, w1)"
    and k: "k = (if thisPluginOnly cfg then Some (sha256 (u @ getPluginId w1)) else Some (sha256 u))"
    using assms
    by (auto simp: getConfigKey_def bind_outcome_Returns_iff split: if_splits)
  have "getOrCreateLibraryUuid w1 = Returns (u, w1)"
    using getOrCreateLibraryUuid_frame(6,7) [OF u]
    by (simp add: getOrCreateLibraryUuid_def falsy_def Let_def)
  then show ?thesis
    using True k by (simp add: getConfigKey_def)
qed


lemma getSection_keyed:
  assumes "getConfigKey cfg w = Returns (Some sk, w1)"
    and "getSection cfg w = Returns (d, w2)"
  shows "w2 = w1 \<and> (\<exists>kvs. loadFile cfg w = JObj kvs \<and> section_of kvs sk = Some d)"
  using assms
  by (auto simp: getSection_def Let_def section_of_def split: json.splits option.splits)

lemma saveSection_keyed:
  assumes "getConfigKey cfg w = Returns (Some sk, w1)"
    and "saveSection cfg d w = Returns (u, w2)"
  shows "\<exists>kvs. loadFile cfg w = JObj kvs
           \<and> loadFile cfg w2 = JObj (AList.update sk (JObj d) kvs)"
proof -
  from assms obtain kvs where kvs: "loadFile cfg w1 = JObj kvs"
    and w2: "w2 = saveFile cfg (AList.update sk (JObj d) kvs) w1"
    by (auto simp: saveSection_def split: json.splits)
  have "loadFile cfg w = JObj kvs"
    using kvs getConfigKey_paths(4) [OF assms(1)] by simp
  moreover have "loadFile cfg w2 = JObj (AList.update sk (JObj d) kvs)"
    by (simp add: w2 saveFile_def writeJsonFile_def loadFile_def readJsonFile_def
        getConfigFilePath_def getConfigBasePath_def)
  ultimately show ?thesis by blast
qed

lemma saveSection_sections:
  assumes "getConfigKey cfg w = Returns (Some sk, w1)"
    and "saveSection cfg d w = Returns (u, w2)"
  shows "map_of (sections cfg w2) = (map_of (sections cfg w))(sk \<mapsto> JObj d)"
  using saveSection_keyed [OF assms]
  by (auto simp: sections_def update_conv')

lemma getSection_then_saveSection:
  assumes key: "getConfigKey cfg w = Returns (Some sk, w1)"
    and get: "getSection cfg w = Returns (d, w2)"
    and save: "saveSection cfg d' w2 = Returns (u, w3)"
  shows "map_of (sections cfg w3) = (map_of (sections cfg w))(sk \<mapsto> JObj d')"
proof -
  have w2: "w2 = w1" using getSection_keyed [OF key get] by simp
  have again: "getConfigKey cfg w1 = Returns (Some sk, w1)"
    by (rule getConfigKey_again [OF key])
  have "map_of (sections cfg w3) = (map_of (sections cfg w1))(sk \<mapsto> JObj d')"
    using saveSection_sections [OF again] save w2 by simp
  moreover have "sections cfg w1 = sections cfg w"
    by (simp add: sections_def getConfigKey_paths(4) [OF key])
  ultimately show ?thesis by simp
qed

lemma mutate_sections:
  assumes key: "getConfigKey cfg w = Returns (Some sk, w1)"
    and run: "mutate cfg op w = Returns w'"
  shows "map_of (sections cfg w') = map_of (sections cfg w)
       \<or> (\<exists>d. map_of (sections cfg w') = (map_of (sections cfg w))(sk \<mapsto> JObj d))"
proof (cases op)
  case (Set k v)
  with run obtain d w2 u where "getSection cfg w = Returns (d, w2)"
    and "saveSection cfg (AList.update k v d) w2 = Returns (u, w')"
    by (auto simp: config_set_def bind_outcome_Returns_iff)
  then show ?thesis using getSection_then_saveSection [OF key] by blast
next
  case (SetMany vs)
  with run obtain d w2 u where "getSection cfg w = Returns (d, w2)"
    and "saveSection cfg (foldl (\<lambda>d (k, v). AList.update k v d) d vs) w2 = Returns (u, w')"
    by (auto simp: setMany_def bind_outcome_Returns_iff)
  then show ?thesis using getSection_then_saveSection [OF key] by blast
next
  case (Remove k)
  with run obtain d w2 b where g: "getSection cfg w = Returns (d, w2)"
    and r: "(if k \<in> fst ` set d
             then bind_outcome (saveSection cfg (AList.delete k d) w2) (\<lambda>(u, w3). Returns (True, w3))
             else Returns (False, w2)) = Returns (b, w')"
    by (auto simp: config_remove_def bind_outcome_Returns_iff)
  show ?thesis
  proof (cases "k \<in> fst ` set d")
    case True
    with r obtain u where "saveSection cfg (AList.delete k d) w2 = Returns (u, w')"
      by (auto simp: bind_outcome_Returns_iff)
    then show ?thesis using getSection_then_saveSection [OF key g] by blast
  next
    case False
    with r have "w' = w2" by simp
    moreover have "w2 = w1" using getSection_keyed [OF key g] by simp
    moreover have "sections cfg w1 = sections cfg w"
      by (simp add: sections_def getConfigKey_paths(4) [OF key])
    ultimately show ?thesis by simp
  qed
next
  case Clear
  with run obtain u where "saveSection cfg [] w = Returns (u, w')"
    by (auto simp: config_clear_def bind_outcome_Returns_iff)
  then show ?thesis using saveSection_sections [OF key] by blast
qed

text \<open>
  C8: a scope with a section key runs \<open>set\<close>, \<open>setMany\<close>, \<open>remove\<close> or \<open>clear\<close>. The
  operation reads the file again before it puts its section in and writes the document
  back: every other key of the file has, after the operation, the value it had before.
\<close>

theorem C8_siblings_unchanged:
  assumes "getConfigKey cfg w = Returns (Some sk, w1)"
    and "mutate cfg op w = Returns w'"
    and "k' \<noteq> sk"
  shows "map_of (sections cfg w') k' = map_of (sections cfg w) k'"
  using mutate_sections [OF assms(1,2)] assms(3) by auto


lemma hex_digit_lower: "hex_digit n \<in> set ''0123456789abcdef''"
proof -
  have "n mod 16 < length ''0123456789abcdef''" by simp
  then show ?thesis unfolding hex_digit_def by (rule nth_mem)
qed

lemma hex_word_length: "length (hex_word w) = 8"
  by (simp add: hex_word_def)

lemma hex_word_chars: "set (hex_word w) \<subseteq> set ''0123456789abcdef''"
  using hex_digit_lower by (auto simp: hex_word_def)

lemma hex_state_length: "length (hex_state s) = 64"
  by (cases s rule: hex_state.cases) (simp add: hex_word_length)

lemma hex_state_chars: "set (hex_state s) \<subseteq> set ''0123456789abcdef''"
proof (cases s rule: hex_state.cases)
  case (1 h0 h1 h2 h3 h4 h5 h6 h7)
  show ?thesis
    by (simp only: 1 hex_state.simps set_append Un_subset_iff hex_word_chars simp_thms)
qed

lemma digest_hex_length: "length (digest_hex msg) = 64"
  by (simp add: digest_hex_def hex_state_length)

lemma digest_hex_chars: "set (digest_hex msg) \<subseteq> set ''0123456789abcdef''"
  unfolding digest_hex_def by (rule hex_state_chars)

lemma sha256_format:
  "length (sha256 x) = 16" "set (sha256 x) \<subseteq> set ''0123456789abcdef''"
proof -
  show "length (sha256 x) = 16" by (simp add: sha256_def digest_hex_length)
  show "set (sha256 x) \<subseteq> set ''0123456789abcdef''"
    using digest_hex_chars [of "utf8 x"] set_take_subset [of 16 "digest_hex (utf8 x)"]
    unfolding sha256_def by blast
qed

lemma holds_sections_section_of:
  "holds_sections (JObj kvs) \<Longrightarrow> \<exists>d. section_of kvs k = Some d"
proof -
  assume h: "holds_sections (JObj kvs)"
  show ?thesis
  proof (cases "map_of kvs k")
    case None
    then show ?thesis by (simp add: section_of_def)
  next
    case (Some v)
    then have "(k, v) \<in> set kvs" by (rule map_of_SomeD)
    with h obtain s where "v = JObj s"
      by (auto simp: holds_sections_def list_all_iff split: json.splits)
    with Some show ?thesis by (simp add: section_of_def)
  qed
qed

lemma holds_sections_update:
  "holds_sections (JObj kvs) \<Longrightarrow> holds_sections (JObj (AList.update k (JObj d) kvs))"
  by (induction kvs) (auto simp: holds_sections_def)

text \<open>A scope whose key needs no UUID file: writing, then reading.\<close>

lemma library_key:
  assumes "config_type cfg = Librarybased" and "\<not> useLibraryUuid cfg"
  shows "getConfigKey cfg w =
           Returns (Some (sha256 (getLibraryIdentifier w (useLibraryNameAsLibIdentifier cfg)
                                  @ (if thisPluginOnly cfg then getPluginId w else []))), w)"
  using assms by (simp add: getConfigKey_def)

lemma getSection_plain:
  assumes "getConfigKey cfg w = Returns (Some sk, w)"
    and "loadFile cfg w = JObj kvs" and "section_of kvs sk = Some d"
  shows "getSection cfg w = Returns (d, w)"
  using assms
  by (auto simp: getSection_def section_of_def split: option.splits json.splits)

lemma saveSection_plain:
  assumes "getConfigKey cfg w = Returns (Some sk, w)" and "loadFile cfg w = JObj kvs"
  shows "saveSection cfg d w = Returns ((), saveFile cfg (AList.update sk (JObj d) kvs) w)"
  using assms by (simp add: saveSection_def)

lemma config_set_plain:
  assumes "getConfigKey cfg w = Returns (Some sk, w)"
    and "loadFile cfg w = JObj kvs" and "section_of kvs sk = Some d"
  shows "config_set cfg k v w
         = Returns ((), saveFile cfg (AList.update sk (JObj (AList.update k v d)) kvs) w)"
  using getSection_plain [OF assms] saveSection_plain [OF assms(1,2)]
  by (simp add: config_set_def)

lemma config_get_plain:
  assumes "getConfigKey cfg w = Returns (Some sk, w)"
    and "loadFile cfg w = JObj kvs" and "section_of kvs sk = Some d"
  shows "config_get cfg k w = Returns (map_of d k, w)"
  using getSection_plain [OF assms] by (simp add: config_get_def)

lemma saveFile_fields:
  "eagle_os_homedir (saveFile cfg d w) = eagle_os_homedir w"
  "eagle_library_path (saveFile cfg d w) = eagle_library_path w"
  "eagle_library_name (saveFile cfg d w) = eagle_library_name w"
  "currentPluginId (saveFile cfg d w) = currentPluginId w"
  "getConfigFilePath (saveFile cfg d w) c = getConfigFilePath w c"
  "getPluginId (saveFile cfg d w) = getPluginId w"
  "getLibraryIdentifier (saveFile cfg d w) b = getLibraryIdentifier w b"
  by (simp_all add: saveFile_def writeJsonFile_def getConfigFilePath_def getConfigBasePath_def
      getPluginId_def getLibraryIdentifier_def)

lemma loadFile_saveFile:
  "getConfigFilePath w c = getConfigFilePath w cfg \<Longrightarrow> loadFile c (saveFile cfg d w) = JObj d"
  by (simp add: loadFile_def readJsonFile_def saveFile_fields)
     (simp add: saveFile_def writeJsonFile_def)

lemma section_of_update_same:
  "section_of (AList.update sk (JObj d) kvs) sk = Some d"
  by (simp add: section_of_def update_conv')

lemma section_of_update_other:
  "sk' \<noteq> sk \<Longrightarrow> section_of (AList.update sk v kvs) sk' = section_of kvs sk'"
  by (simp add: section_of_def update_conv')

lemma two_scopes_one_file:
  assumes k1: "\<And>w. P w \<Longrightarrow> getConfigKey c1 w = Returns (Some sk1, w)"
    and k2: "\<And>w. P w \<Longrightarrow> getConfigKey c2 w = Returns (Some sk2, w)"
    and P: "P w" and keep: "\<And>w c d. P w \<Longrightarrow> P (saveFile c d w)"
    and same: "\<And>w. getConfigFilePath w c1 = getConfigFilePath w c2"
    and ne: "sk1 \<noteq> sk2"
    and doc: "holds_sections (loadFile c1 w)"
  shows "\<exists>w1 w2. config_set c1 k v1 w = Returns ((), w1)
           \<and> config_set c2 k v2 w1 = Returns ((), w2)
           \<and> config_get c1 k w2 = Returns (Some v1, w2)
           \<and> config_get c2 k w2 = Returns (Some v2, w2)"
proof -
  from doc obtain kvs where kvs: "loadFile c1 w = JObj kvs" and hs: "holds_sections (JObj kvs)"
    by (cases "loadFile c1 w") (auto simp: holds_sections_def)
  obtain d1 where d1: "section_of kvs sk1 = Some d1"
    using holds_sections_section_of [OF hs] by blast
  obtain d2 where d2: "section_of kvs sk2 = Some d2"
    using holds_sections_section_of [OF hs] by blast
  define kvs1 where "kvs1 = AList.update sk1 (JObj (AList.update k v1 d1)) kvs"
  define w1 where "w1 = saveFile c1 kvs1 w"
  define kvs2 where "kvs2 = AList.update sk2 (JObj (AList.update k v2 d2)) kvs1"
  define w2 where "w2 = saveFile c2 kvs2 w1"
  have s1: "config_set c1 k v1 w = Returns ((), w1)"
    unfolding w1_def kvs1_def by (rule config_set_plain [OF k1 [OF P] kvs d1])
  have P1: "P w1" unfolding w1_def by (rule keep [OF P])
  have l1: "loadFile c2 w1 = JObj kvs1"
    unfolding w1_def by (rule loadFile_saveFile) (simp add: same)
  have d2': "section_of kvs1 sk2 = Some d2"
    unfolding kvs1_def using ne d2 by (simp add: section_of_update_other)
  have s2: "config_set c2 k v2 w1 = Returns ((), w2)"
    unfolding w2_def kvs2_def by (rule config_set_plain [OF k2 [OF P1] l1 d2'])
  have P2: "P w2" unfolding w2_def by (rule keep [OF P1])
  have l2: "loadFile c1 w2 = JObj kvs2" "loadFile c2 w2 = JObj kvs2"
    unfolding w2_def by (rule loadFile_saveFile, simp add: same)+
  have e1: "section_of kvs2 sk1 = Some (AList.update k v1 d1)"
    unfolding kvs2_def kvs1_def using ne
    by (simp add: section_of_update_other section_of_update_same)
  have e2: "section_of kvs2 sk2 = Some (AList.update k v2 d2)"
    unfolding kvs2_def by (simp add: section_of_update_same)
  have g1: "config_get c1 k w2 = Returns (Some v1, w2)"
    using config_get_plain [OF k1 [OF P2] l2(1) e1, of k] by (simp add: update_conv')
  have g2: "config_get c2 k w2 = Returns (Some v2, w2)"
    using config_get_plain [OF k2 [OF P2] l2(2) e2, of k] by (simp add: update_conv')
  from s1 s2 g1 g2 show ?thesis by blast
qed

lemma replicate_numeral: "replicate (numeral k) x = x # replicate (pred_numeral k) x"
  by (simp add: numeral_eq_Suc)

lemma add32_bits: "add32 x y = take_bit 32 (x + y)"
  by (simp add: add32_def take_bit_eq_mod)

lemma rotr_bits: "rotr n x = drop_bit n x + push_bit (32 - n) (take_bit n x)"
  by (simp add: rotr_def take_bit_eq_mod drop_bit_eq_div push_bit_eq_mult)

lemma shr_bits: "shr n x = drop_bit n x"
  by (simp add: shr_def drop_bit_eq_div)

lemma not32_bits: "not32 x = 4294967295 - take_bit 32 x"
  by (simp add: not32_def take_bit_eq_mod)

lemmas sha256_eval =
  sha256_def digest_hex_def sha256_state_def utf8_def pad_def length_bytes_def replicate_numeral
  compress_def K256_def H256_init_def Sigma0_def Sigma1_def sigma0_def sigma1_def Ch_def Maj_def
  rotr_bits shr_bits add32_bits not32_bits hex_word_def hex_digit_def

lemma sha256_L: "sha256 ''/L'' = ''d4ae3f18f3028728''"
  by (simp add: sha256_eval)

lemma sha256_LP: "sha256 ''/LP'' = ''3efad9de18f7f2f1''"
  by (simp add: sha256_eval)

text \<open>The one-block example of the standard.\<close>

lemma digest_hex_abc:
  "digest_hex (utf8 ''abc'')
   = ''ba7816bf8f01cfea414140de5dae2223b00361a396177a9cb410ff61f20015ad''"
  by (simp add: sha256_eval)

text \<open>
  C7: a section key is the first 16 characters of the lower-case hexadecimal SHA-256 of
  the scope's identifier. With plugin id \<open>P\<close> and library path \<open>/L\<close>, the
  library-and-plugin scope has the key \<open>sha256 ("/L" + "P")\<close>, the library-only scope
  \<open>sha256 "/L"\<close>, both write to \<open>library.json\<close>, the two keys differ, and after each
  scope has set the same key \<open>k\<close>, each reads its own value back.
\<close>

theorem C7_section_keys_and_scope_isolation:
  assumes "currentPluginId w = Some ''P''" and "eagle_library_path w = ''/L''"
    and "holds_sections (loadFile (createLibraryConfig False) w)"
  shows "sha256 x = take 16 (digest_hex (utf8 x))
       \<and> length (sha256 x) = 16 \<and> set (sha256 x) \<subseteq> set ''0123456789abcdef''
       \<and> getConfigKey (createLibraryPluginConfig False) w
           = Returns (Some (sha256 (''/L'' @ ''P'')), w)
       \<and> getConfigKey (createLibraryConfig False) w = Returns (Some (sha256 ''/L''), w)
       \<and> getConfigFilePath w (createLibraryPluginConfig False)
           = path_join (getConfigBasePath w) ''library.json''
       \<and> getConfigFilePath w (createLibraryConfig False)
           = path_join (getConfigBasePath w) ''library.json''
       \<and> sha256 (''/L'' @ ''P'') \<noteq> sha256 ''/L''
       \<and> (\<exists>w1 w2.
             config_set (createLibraryPluginConfig False) k v1 w = Returns ((), w1)
           \<and> config_set (createLibraryConfig False) k v2 w1 = Returns ((), w2)
           \<and> config_get (createLibraryPluginConfig False) k w2 = Returns (Some v1, w2)
           \<and> config_get (createLibraryConfig False) k w2 = Returns (Some v2, w2))"
proof -
  let ?both = "createLibraryPluginConfig False" and ?lib = "createLibraryConfig False"
  define P where "P = (\<lambda>w::world. currentPluginId w = Some ''P'' \<and> eagle_library_path w = ''/L'')"
  have keyP: "getConfigKey ?both w = Returns (Some (sha256 (''/L'' @ ''P'')), w)" if "P w" for w
    using that
    by (simp add: P_def library_key createLibraryPluginConfig_def getLibraryIdentifier_def
        getPluginId_def)
  have keyL: "getConfigKey ?lib w = Returns (Some (sha256 ''/L''), w)" if "P w" for w
    using that
    by (simp add: P_def library_key createLibraryConfig_def getLibraryIdentifier_def)
  have paths: "getConfigFilePath w ?both = path_join (getConfigBasePath w) ''library.json''"
    "getConfigFilePath w ?lib = path_join (getConfigBasePath w) ''library.json''" for w
    by (simp_all add: getConfigFilePath_def createLibraryPluginConfig_def createLibraryConfig_def
        CONFIG_FILES_library_def)
  have ne: "sha256 (''/L'' @ ''P'') \<noteq> sha256 ''/L''"
    by (simp add: sha256_L sha256_LP)
  have Pw: "P w" using assms(1,2) by (simp add: P_def)
  have keep: "P (saveFile c d w)" if "P w" for w c d
    using that by (simp add: P_def saveFile_fields)
  have doc: "holds_sections (loadFile ?both w)"
    using assms(3) by (simp add: loadFile_def paths)
  have iso: "\<exists>w1 w2.
             config_set ?both k v1 w = Returns ((), w1)
           \<and> config_set ?lib k v2 w1 = Returns ((), w2)
           \<and> config_get ?both k w2 = Returns (Some v1, w2)
           \<and> config_get ?lib k w2 = Returns (Some v2, w2)"
    by (rule two_scopes_one_file [where P = P, OF keyP keyL Pw keep _ ne doc])
       (simp_all add: paths)
  show ?thesis
    using keyP [OF Pw] keyL [OF Pw] paths ne iso sha256_format [of x]
    by (simp add: sha256_def)
qed

theorem C7_section_keys_witness:
  "currentPluginId fresh_world = Some ''P'' \<and> eagle_library_path fresh_world = ''/L''
   \<and> holds_sections (loadFile (createLibraryConfig False) fresh_world)
   \<and> sha256 (''/L'' @ ''P'') = ''3efad9de18f7f2f1'' \<and> sha256 ''/L'' = ''d4ae3f18f3028728''
   \<and> getConfigKey (createLibraryPluginConfig False) fresh_world
       = Returns (Some ''3efad9de18f7f2f1'', fresh_world)
   \<and> getConfigKey (createLibraryConfig False) fresh_world
       = Returns (Some ''d4ae3f18f3028728'', fresh_world)
   \<and> getConfigFilePath fresh_world (createLibraryPluginConfig False)
       = ''/home/u/.eaglecooler/config/library.json''
   \<and> getConfigFilePath fresh_world (createLibraryConfig False)
       = ''/home/u/.eaglecooler/config/library.json''
   \<and> (\<exists>w1 w2.
         config_set (createLibraryPluginConfig False) ''k'' (JNum 1) fresh_world = Returns ((), w1)
       \<and> config_set (createLibraryConfig False) ''k'' (JNum 2) w1 = Returns ((), w2)
       \<and> config_get (createLibraryPluginConfig False) ''k'' w2 = Returns (Some (JNum 1), w2)
       \<and> config_get (createLibraryConfig False) ''k'' w2 = Returns (Some (JNum 2), w2))"
proof -
  have h1: "currentPluginId fresh_world = Some ''P''" by (simp add: fresh_world_def)
  have h2: "eagle_library_path fresh_world = ''/L''" by (simp add: fresh_world_def)
  have h3: "holds_sections (loadFile (createLibraryConfig False) fresh_world)"
    by (simp add: holds_sections_def loadFile_def readJsonFile_def fresh_world_def)
  have base: "path_join (getConfigBasePath fresh_world) ''library.json''
              = ''/home/u/.eaglecooler/config/library.json''"
    by (simp add: path_join_def getConfigBasePath_def fresh_world_def CONFIG_DIR_NAME_def
        CONFIG_SUBDIR_def)
  note inst = C7_section_keys_and_scope_isolation
    [OF h1 h2 h3, of "''/L''" "''k''" "JNum 1" "JNum 2"]
  show ?thesis
    using h1 h2 h3 inst base sha256_L sha256_LP by simp
qed


theorem C8_siblings_witness:
  "getConfigKey (createLibraryConfig False) used_world
     = Returns (Some ''d4ae3f18f3028728'', used_world)
   \<and> map_of (sections (createLibraryConfig False) used_world) ''3efad9de18f7f2f1''
       = Some (JObj [(''k'', JNum 1)])
   \<and> (\<exists>w'. mutate (createLibraryConfig False) (Set ''k'' (JNum 2)) used_world = Returns w'
        \<and> map_of (sections (createLibraryConfig False) w') ''3efad9de18f7f2f1''
            = Some (JObj [(''k'', JNum 1)])
        \<and> map_of (sections (createLibraryConfig False) w') ''d4ae3f18f3028728''
            = Some (JObj [(''k'', JNum 2)]))"
proof -
  let ?lib = "createLibraryConfig False"
  let ?kvs = "[(''3efad9de18f7f2f1'', JObj [(''k'', JNum 1)])]"
  have key: "getConfigKey ?lib used_world = Returns (Some ''d4ae3f18f3028728'', used_world)"
    by (simp add: library_key createLibraryConfig_def getLibraryIdentifier_def used_world_def
        fresh_world_def sha256_L)
  have doc: "loadFile ?lib used_world = JObj ?kvs"
    by (simp add: loadFile_def readJsonFile_def getConfigFilePath_def getConfigBasePath_def
        path_join_def createLibraryConfig_def used_world_def fresh_world_def
        CONFIG_DIR_NAME_def CONFIG_SUBDIR_def CONFIG_FILES_library_def)
  have sec: "section_of ?kvs ''d4ae3f18f3028728'' = Some []"
    by (simp add: section_of_def)
  define w' where
    "w' = saveFile ?lib
            (AList.update ''d4ae3f18f3028728'' (JObj (AList.update ''k'' (JNum 2) [])) ?kvs)
            used_world"
  have run: "mutate ?lib (Set ''k'' (JNum 2)) used_world = Returns w'"
    using config_set_plain [OF key doc sec, of "''k''" "JNum 2"] by (simp add: w'_def)
  have before: "map_of (sections ?lib used_world) ''3efad9de18f7f2f1''
                = Some (JObj [(''k'', JNum 1)])"
    by (simp add: sections_def doc)
  have ne: "''3efad9de18f7f2f1'' \<noteq> ''d4ae3f18f3028728''" by simp
  have sibling: "map_of (sections ?lib w') ''3efad9de18f7f2f1''
                 = map_of (sections ?lib used_world) ''3efad9de18f7f2f1''"
    by (rule C8_siblings_unchanged [OF key run ne])
  have own: "map_of (sections ?lib w') ''d4ae3f18f3028728'' = Some (JObj [(''k'', JNum 2)])"
    by (simp add: sections_def w'_def loadFile_saveFile)
  show ?thesis
    using key before run sibling own by simp
qed

end
